theory Spec2Isabelle
  imports Complex_Main "HOL-Library.AList" "HOL-Library.Log_Nat"
begin

section \<open>Strings and JavaScript values\<close>

text \<open>
  Strings are byte lists. \<open>String.prototype.startsWith\<close> and
  \<open>String.prototype.includes\<close> are the prefix and the contiguous-substring test;
  both are case sensitive.
\<close>

fun startsWith :: "string \<Rightarrow> string \<Rightarrow> bool" where
  "startsWith s [] = True"
| "startsWith [] (p # ps) = False"
| "startsWith (c # cs) (p # ps) = (c = p \<and> startsWith cs ps)"

fun str_includes :: "string \<Rightarrow> string \<Rightarrow> bool" where
  "str_includes [] p = (p = [])"
| "str_includes (c # cs) p = (startsWith (c # cs) p \<or> str_includes cs p)"

text \<open>\<open>toLowerCase\<close> on the ASCII letters (the only ones the matched patterns contain).\<close>

definition lower_char :: "char \<Rightarrow> char" where
  "lower_char c =
     (if 65 \<le> (of_char c :: nat) \<and> (of_char c :: nat) \<le> 90
      then char_of ((of_char c :: nat) + 32) else c)"

definition toLowerCase :: "string \<Rightarrow> string" where
  "toLowerCase s = map lower_char s"

text \<open>\<open>trim\<close> removes leading and trailing white space (the ASCII white space here).\<close>

definition is_space :: "char \<Rightarrow> bool" where
  "is_space c = ((of_char c :: nat) \<in> {9, 10, 11, 12, 13, 32})"

definition trim :: "string \<Rightarrow> string" where
  "trim s = rev (dropWhile is_space (rev (dropWhile is_space s)))"

text \<open>
  Numbers are IEEE 754 binary64 values: \<open>NaN\<close>, the two infinities, and the finite
  values, held as the rational they denote (the two zeros are one value here; the
  functions below never tell them apart). An arithmetic result is the exact result
  rounded to the nearest representable value, ties to the even significand:
  \<open>round_double\<close>, with 53 significant bits, the subnormal range below \<open>2^-1022\<close> and
  overflow to infinity from \<open>2^1024 - 2^970\<close> on.
\<close>

datatype number = NaN | Infinity | NegInfinity | Num rat

text \<open>\<open>floor_log2 x\<close> is the binary exponent of a positive \<open>x\<close>.\<close>

definition floor_log2 :: "rat \<Rightarrow> int" where
  "floor_log2 x =
     (if 1 \<le> x then bitlen \<lfloor>x\<rfloor> - 1
      else - bitlen (\<lceil>1 / x\<rceil> - 1))"

definition round_half_even :: "rat \<Rightarrow> int" where
  "round_half_even q =
     (let f = \<lfloor>q\<rfloor>; d = q - of_int f
      in if d < 1 / 2 then f
         else if 1 / 2 < d then f + 1
         else if even f then f else f + 1)"

definition round_double :: "rat \<Rightarrow> number" where
  "round_double x =
     (if x = 0 then Num 0
      else
        (let e = max (floor_log2 \<bar>x\<bar>) (- 1022);
             ulp = 2 powi (e - 52);
             y = of_int (round_half_even (\<bar>x\<bar> / ulp)) * ulp
         in if 2 ^ 1024 \<le> y then (if 0 < x then Infinity else NegInfinity)
            else Num (sgn x * y)))"

text \<open>The operators on numbers that the program uses: \<open>a + b\<close>, \<open>a <= b\<close>, \<open>a >= b\<close> and
  \<open>Math.max(a, b)\<close>. A comparison with \<open>NaN\<close> is false; \<open>Math.max\<close> of a \<open>NaN\<close> is
  \<open>NaN\<close>.\<close>

fun js_add :: "number \<Rightarrow> number \<Rightarrow> number" where
  "js_add NaN b = NaN"
| "js_add a NaN = NaN"
| "js_add Infinity NegInfinity = NaN"
| "js_add NegInfinity Infinity = NaN"
| "js_add Infinity b = Infinity"
| "js_add a Infinity = Infinity"
| "js_add NegInfinity b = NegInfinity"
| "js_add a NegInfinity = NegInfinity"
| "js_add (Num a) (Num b) = round_double (a + b)"

fun js_le :: "number \<Rightarrow> number \<Rightarrow> bool" where
  "js_le NaN b = False"
| "js_le a NaN = False"
| "js_le NegInfinity b = True"
| "js_le a Infinity = True"
| "js_le Infinity b = False"
| "js_le a NegInfinity = False"
| "js_le (Num a) (Num b) = (a \<le> b)"

definition js_ge :: "number \<Rightarrow> number \<Rightarrow> bool" where
  "js_ge a b = js_le b a"

definition Math_max :: "number \<Rightarrow> number \<Rightarrow> number" where
  "Math_max a b = (if a = NaN \<or> b = NaN then NaN else if js_le a b then b else a)"

text \<open>
  \<open>x || d\<close> on an optional number: \<open>undefined\<close> (a missing argument or property),
  \<open>NaN\<close> and \<open>0\<close> are falsy and give the default.
\<close>

definition truthy :: "number \<Rightarrow> bool" where
  "truthy v = (v \<noteq> NaN \<and> v \<noteq> Num 0)"

definition js_or :: "number option \<Rightarrow> number \<Rightarrow> number" where
  "js_or x d = (case x of None \<Rightarrow> d | Some v \<Rightarrow> if truthy v then v else d)"

text \<open>Decimal rendering of a number inside a template literal.\<close>

definition digit_char :: "nat \<Rightarrow> char" where
  "digit_char d = char_of (48 + d)"

function show_nat :: "nat \<Rightarrow> string" where
  "show_nat n = (if n < 10 then [digit_char n] else show_nat (n div 10) @ [digit_char (n mod 10)])"
  by pat_completeness auto
termination
  by (relation "measure (\<lambda>n. n)") auto

declare show_nat.simps [simp del]

text \<open>\<open>Buffer.prototype.toString('base64')\<close>: three bytes give four characters, with padding.\<close>

definition b64chars :: string where
  "b64chars = ''ABCDEFGHIJKLMNOPQRSTUVWXYZabcdefghijklmnopqrstuvwxyz0123456789+/''"

definition b64 :: "nat \<Rightarrow> char" where
  "b64 i = b64chars ! (i mod 64)"

fun base64 :: "string \<Rightarrow> string" where
  "base64 [] = []"
| "base64 [a] =
     (let n = (of_char a :: nat) * 65536
      in [b64 (n div 262144), b64 (n div 4096), CHR ''='', CHR ''=''])"
| "base64 [a, b] =
     (let n = (of_char a :: nat) * 65536 + (of_char b :: nat) * 256
      in [b64 (n div 262144), b64 (n div 4096), b64 (n div 64), CHR ''=''])"
| "base64 (a # b # c # rest) =
     (let n = (of_char a :: nat) * 65536 + (of_char b :: nat) * 256 + (of_char c :: nat)
      in [b64 (n div 262144), b64 (n div 4096), b64 (n div 64), b64 n] @ base64 rest)"

section \<open>Configuration (config.js)\<close>

record business_hours =
  bh_start :: int
  bh_end :: int

definition defaultBusinessHours :: business_hours where
  "defaultBusinessHours = \<lparr>bh_start = 8, bh_end = 21\<rparr>"

definition defaultIntervals_min :: number where "defaultIntervals_min = Num 30000"
definition defaultIntervals_max :: number where "defaultIntervals_max = Num 110000"

definition webhook_retryAttempts :: nat where "webhook_retryAttempts = 3"

definition reconnection_maxAttempts :: nat where "reconnection_maxAttempts = 10"
definition reconnection_debounceMs :: int where "reconnection_debounceMs = 3000"

definition maxProcessedMessages_cfg :: nat where "maxProcessedMessages_cfg = 10000"
definition messageIdTruncateLength :: nat where "messageIdTruncateLength = 20"

section \<open>Helpers (utils/helpers.js)\<close>

text \<open>
  A delivery as amqplib hands it over: \<open>fields.deliveryTag\<close> and the payload bytes.
  The payload is taken to be the UTF-8 encoding of a string, so that
  \<open>Buffer.from(msg.content.toString())\<close> gives the payload bytes back.
\<close>

record delivery =
  deliveryTag :: nat
  content :: string

text \<open>\<open>isWithinBusinessHours\<close>, with the current hour in the configured time zone as input;
  a missing argument takes the default hours.\<close>

definition isWithinBusinessHours :: "int \<Rightarrow> business_hours option \<Rightarrow> bool" where
  "isWithinBusinessHours hour businessHours =
     (let bh = (case businessHours of None \<Rightarrow> defaultBusinessHours | Some b \<Rightarrow> b)
      in hour \<ge> bh_start bh \<and> hour < bh_end bh)"

definition generateMessageId :: "delivery \<Rightarrow> string" where
  "generateMessageId msg =
     (let contentHash = take messageIdTruncateLength (base64 (content msg))
      in show_nat (deliveryTag msg) @ ''_'' @ contentHash)"

text \<open>\<open>isValidUrl\<close>: the \<open>URL\<close> constructor must accept the string (the parameter
  \<open>url_parses\<close> stands for the platform's parser) and the scheme must be http or https.\<close>

definition isValidUrl :: "(string \<Rightarrow> bool) \<Rightarrow> string \<Rightarrow> bool" where
  "isValidUrl url_parses s =
     (if url_parses s then startsWith s ''http://'' \<or> startsWith s ''https://'' else False)"

definition isValidQueueName :: "string \<Rightarrow> bool" where
  "isValidQueueName queue = (trim queue \<noteq> [])"

text \<open>\<open>sanitizeIntervals\<close>: each argument is a number or is missing (\<open>undefined\<close> or
  \<open>null\<close>, which \<open>||\<close> treats alike); \<open>min + 1000\<close> is the rounded sum.\<close>

definition sanitizeIntervals :: "number option \<Rightarrow> number option \<Rightarrow> number \<times> number" where
  "sanitizeIntervals minInterval maxInterval =
     (let mn = Math_max (Num 1000) (js_or minInterval defaultIntervals_min);
          mx = Math_max (js_add mn (Num 1000)) (js_or maxInterval defaultIntervals_max)
      in (mn, mx))"

section \<open>Queue configuration validation (MessageProcessor.validateQueueConfig)\<close>

record queue_config_input =
  qc_queue :: string
  qc_webhook :: string
  qc_minInterval :: "number option"
  qc_maxInterval :: "number option"
  qc_businessHours :: "business_hours option"

record validation =
  isValid :: bool
  errors :: "string list"
  sanitized_minInterval :: number
  sanitized_maxInterval :: number

definition validateQueueConfig :: "(string \<Rightarrow> bool) \<Rightarrow> queue_config_input \<Rightarrow> validation" where
  "validateQueueConfig url_parses config =
     (let e1 = (if \<not> isValidQueueName (qc_queue config) then [''Invalid queue name''] else []);
          e2 = (if \<not> isValidUrl url_parses (qc_webhook config) then [''Invalid webhook URL''] else []);
          (mn, mx) = sanitizeIntervals (qc_minInterval config) (qc_maxInterval config);
          e3 = (if js_ge mn mx then [''Minimum interval must be less than maximum interval''] else []);
          e4 = (case qc_businessHours config of
                  None \<Rightarrow> []
                | Some bh \<Rightarrow>
                    if bh_start bh < 0 \<or> bh_start bh > 23 \<or> bh_end bh < 0 \<or> bh_end bh > 23
                       \<or> bh_start bh \<ge> bh_end bh
                    then [''Invalid business hours configuration''] else []);
          errs = e1 @ e2 @ e3 @ e4
      in \<lparr>isValid = (errs = []), errors = errs,
          sanitized_minInterval = mn, sanitized_maxInterval = mx\<rparr>)"

section \<open>Broker client (RabbitMQService)\<close>

text \<open>
  An error thrown by the channel is an \<open>Error\<close> object: a message and, for protocol
  errors, the AMQP reply code.
\<close>

record amqp_error =
  err_code :: "int option"
  err_message :: string

text \<open>The connection and channel objects, as far as the service reads them.\<close>

record amqp_handle =
  closing :: bool
  closed :: bool

text \<open>Calls made on the channel, and events emitted by the service, are kept as logs.\<close>

datatype channel_call =
    BasicAck nat
  | BasicNack nat bool bool
  | QueueCheck string
  | BasicConsume string
  | BasicCancel string

datatype rabbit_event =
    Connected
  | ConnectionError amqp_error
  | ConnectionClosed
  | ChannelError amqp_error
  | ChannelClosed
  | ConsumerCancelledEvent string
  | NeedsReconnection amqp_error
  | Disconnected

record rabbit =
  connection :: "amqp_handle option"
  channel :: "amqp_handle option"
  isConnecting :: bool
  shuttingDown :: bool
  channel_calls :: "channel_call list"
  emitted :: "rabbit_event list"

definition isChannelReady :: "rabbit \<Rightarrow> bool" where
  "isChannelReady r =
     (case channel r of
        None \<Rightarrow> False
      | Some ch \<Rightarrow>
          \<not> closing ch \<and> \<not> closed ch \<and>
          (case connection r of
             None \<Rightarrow> False
           | Some c \<Rightarrow> \<not> closing c \<and> \<not> closed c \<and> \<not> shuttingDown r))"

definition emit :: "rabbit_event \<Rightarrow> rabbit \<Rightarrow> rabbit" where
  "emit ev r = r\<lparr>emitted := emitted r @ [ev]\<rparr>"

definition connectionErrors :: "string list" where
  "connectionErrors =
     [''Channel closed'', ''Connection closed'', ''Connection lost'', ''Socket closed'',
      ''ECONNRESET'', ''ENOTFOUND'', ''ETIMEDOUT'']"

definition shouldTriggerReconnection :: "amqp_error \<Rightarrow> bool" where
  "shouldTriggerReconnection error =
     (let protocolErrors =
            [err_code error = Some 504, err_code error = Some 505, err_code error = Some 506];
          queueSpecificErrors =
            [err_code error = Some 404 \<and> str_includes (err_message error) ''NOT_FOUND'',
             str_includes (err_message error) ''does not exist'',
             err_code error = Some 403]
      in if list_ex (\<lambda>condition. condition) queueSpecificErrors then False
         else if list_ex (\<lambda>condition. condition) protocolErrors then True
         else list_ex (\<lambda>errorPattern. str_includes (err_message error) errorPattern)
                connectionErrors)"

text \<open>
  \<open>safeChannelOperation\<close>: \<open>call\<close> is the channel method the operation invokes and
  \<open>out\<close> what that method does (returns a value or throws). A thrown error is
  classified and rethrown. The \<open>setImmediate\<close> emission is recorded at once.
\<close>

definition channelNotReady :: amqp_error where
  "channelNotReady = \<lparr>err_code = None, err_message = ''Channel not ready''\<rparr>"

definition safeChannelOperation ::
  "rabbit \<Rightarrow> channel_call \<Rightarrow> amqp_error + 'a \<Rightarrow> rabbit \<times> (amqp_error + 'a)" where
  "safeChannelOperation r call out =
     (if \<not> isChannelReady r
      then (emit (NeedsReconnection channelNotReady) r, Inl channelNotReady)
      else
        (let r1 = r\<lparr>channel_calls := channel_calls r @ [call]\<rparr>
         in case out of
              Inr v \<Rightarrow> (r1, Inr v)
            | Inl error \<Rightarrow>
                (if shouldTriggerReconnection error
                 then (emit (NeedsReconnection error) r1, Inl error)
                 else (r1, Inl error))))"

record queue_info =
  messageCount :: nat
  consumerCount :: nat

definition checkQueue ::
  "rabbit \<Rightarrow> string \<Rightarrow> amqp_error + queue_info \<Rightarrow> rabbit \<times> (amqp_error + queue_info)" where
  "checkQueue r queueName out = safeChannelOperation r (QueueCheck queueName) out"

definition createConsumer ::
  "rabbit \<Rightarrow> string \<Rightarrow> amqp_error + string \<Rightarrow> rabbit \<times> (amqp_error + string)" where
  "createConsumer r queueName out = safeChannelOperation r (BasicConsume queueName) out"

definition cancelConsumer ::
  "rabbit \<Rightarrow> string \<Rightarrow> amqp_error + unit \<Rightarrow> rabbit \<times> (amqp_error + unit)" where
  "cancelConsumer r consumerTag out = safeChannelOperation r (BasicCancel consumerTag) out"

text \<open>
  \<open>ackMessage\<close> and \<open>nackMessage\<close>. The argument \<open>out\<close> is what \<open>channel.ack\<close>
  (or \<open>channel.nack\<close>) does when it is called: \<open>None\<close> returns, \<open>Some e\<close> throws
  \<open>e\<close>. The \<open>try\<close> block is \<open>attempt\<close>, the \<open>catch\<close> block the case distinction on it;
  a result \<open>Inl e\<close> would be an exception leaving the method.
\<close>

definition ackMessage ::
  "rabbit \<Rightarrow> amqp_error option \<Rightarrow> delivery option \<Rightarrow> rabbit \<times> (amqp_error + unit)" where
  "ackMessage r out msg =
     (case msg of
        None \<Rightarrow> (r, Inr ())
      | Some m \<Rightarrow>
          (let attempt =
                 (if isChannelReady r
                  then (r\<lparr>channel_calls := channel_calls r @ [BasicAck (deliveryTag m)]\<rparr>,
                        case out of None \<Rightarrow> Inr () | Some e \<Rightarrow> Inl e)
                  else (r, Inr ()))
           in case snd attempt of
                Inr u \<Rightarrow> (fst attempt, Inr ())
              | Inl error \<Rightarrow>
                  (if err_code error = Some 406 \<and> str_includes (err_message error) ''delivery tag''
                   then (fst attempt, Inr ())
                   else (fst attempt, Inr ()))))"

definition nackMessage ::
  "rabbit \<Rightarrow> amqp_error option \<Rightarrow> delivery option \<Rightarrow> bool \<Rightarrow> bool
     \<Rightarrow> rabbit \<times> (amqp_error + unit)" where
  "nackMessage r out msg allUpTo requeue =
     (case msg of
        None \<Rightarrow> (r, Inr ())
      | Some m \<Rightarrow>
          (let attempt =
                 (if isChannelReady r
                  then (r\<lparr>channel_calls :=
                             channel_calls r @ [BasicNack (deliveryTag m) allUpTo requeue]\<rparr>,
                        case out of None \<Rightarrow> Inr () | Some e \<Rightarrow> Inl e)
                  else (r, Inr ()))
           in case snd attempt of
                Inr u \<Rightarrow> (fst attempt, Inr ())
              | Inl error \<Rightarrow>
                  (if err_code error = Some 406 \<and> str_includes (err_message error) ''delivery tag''
                   then (fst attempt, Inr ())
                   else (fst attempt, Inr ()))))"

section \<open>Webhook sender (WebhookService)\<close>

text \<open>
  What one HTTP POST meets: a response with a status code, or none (network error or
  timeout). \<open>axios.post\<close> resolves when \<open>validateStatus\<close> accepts the status and
  rejects otherwise; a rejection with a response carries the status, one without has
  none.
\<close>

datatype http_outcome = Response nat | NoResponse

record axios_error =
  response_status :: "nat option"

definition axios_post :: "(nat \<Rightarrow> bool) \<Rightarrow> http_outcome \<Rightarrow> axios_error + nat" where
  "axios_post validateStatus out =
     (case out of
        Response status \<Rightarrow>
          if validateStatus status then Inr status else Inl \<lparr>response_status = Some status\<rparr>
      | NoResponse \<Rightarrow> Inl \<lparr>response_status = None\<rparr>)"

text \<open>The object thrown by \<open>sendWebhook\<close>; the invalid-URL error has no status.\<close>

record webhook_error =
  werr_status :: "nat option"
  isWebhookError :: bool

text \<open>
  The service: its retry setting, its counters and a log of the POSTs made. The
  response-time statistics depend on the clock and are left out.
\<close>

record webhook_service =
  retryAttempts :: nat
  finishWebhookUrl :: "string option"
  ws_sent :: nat
  ws_failed :: nat
  ws_retries :: nat
  posts :: "string list"

definition updateStats :: "bool \<Rightarrow> webhook_service \<Rightarrow> webhook_service" where
  "updateStats success ws =
     (if success then ws\<lparr>ws_sent := ws_sent ws + 1\<rparr> else ws\<lparr>ws_failed := ws_failed ws + 1\<rparr>)"

definition sendWebhook ::
  "(string \<Rightarrow> bool) \<Rightarrow> webhook_service \<Rightarrow> string \<Rightarrow> http_outcome
     \<Rightarrow> webhook_service \<times> (webhook_error + nat)" where
  "sendWebhook url_ok ws url out =
     (if \<not> isValidUrl url_ok url
      then (ws, Inl \<lparr>werr_status = None, isWebhookError = False\<rparr>)
      else
        (let ws1 = ws\<lparr>posts := posts ws @ [url]\<rparr>
         in case axios_post (\<lambda>status. status < 500) out of
              Inr status \<Rightarrow> (updateStats True ws1, Inr status)
            | Inl error \<Rightarrow>
                (updateStats False ws1,
                 Inl \<lparr>werr_status = response_status error, isWebhookError = True\<rparr>)))"

text \<open>\<open>error.status && error.status >= 400 && error.status < 500\<close>\<close>

definition is_client_error :: "webhook_error \<Rightarrow> bool" where
  "is_client_error error =
     (case werr_status error of
        None \<Rightarrow> False
      | Some status \<Rightarrow> status \<noteq> 0 \<and> status \<ge> 400 \<and> status < 500)"

text \<open>
  The retry loop of \<open>sendWebhookWithRetry\<close>, from \<open>attempt\<close> on; \<open>http k\<close> is what
  the POST of attempt \<open>k\<close> meets. The waiting between attempts is not modelled. The
  result \<open>Inl lastError\<close> is \<open>throw lastError\<close>, with \<open>None\<close> for \<open>undefined\<close>.
\<close>

function sendWebhookWithRetry_loop ::
  "(string \<Rightarrow> bool) \<Rightarrow> string \<Rightarrow> (nat \<Rightarrow> http_outcome) \<Rightarrow> nat \<Rightarrow> nat
     \<Rightarrow> webhook_error option \<Rightarrow> webhook_service
     \<Rightarrow> webhook_service \<times> (webhook_error option + nat)" where
  "sendWebhookWithRetry_loop url_ok url http maxAttempts attempt lastError ws =
     (if attempt \<le> maxAttempts
      then
        (let r = sendWebhook url_ok ws url (http attempt)
         in case snd r of
              Inr result \<Rightarrow> (fst r, Inr result)
            | Inl error \<Rightarrow>
                (let ws2 = (fst r)\<lparr>ws_retries := ws_retries (fst r) + 1\<rparr>
                 in if is_client_error error then (ws2, Inl (Some error))
                    else sendWebhookWithRetry_loop url_ok url http maxAttempts (attempt + 1)
                           (Some error) ws2))
      else (ws, Inl lastError))"
  by pat_completeness auto
termination
  by (relation "measure (\<lambda>(url_ok, url, http, maxAttempts, attempt, lastError, ws).
        maxAttempts + 1 - attempt)") auto

declare sendWebhookWithRetry_loop.simps [simp del]

definition sendWebhookWithRetry ::
  "(string \<Rightarrow> bool) \<Rightarrow> webhook_service \<Rightarrow> string \<Rightarrow> (nat \<Rightarrow> http_outcome)
     \<Rightarrow> webhook_service \<times> (webhook_error option + nat)" where
  "sendWebhookWithRetry url_ok ws url http =
     sendWebhookWithRetry_loop url_ok url http (retryAttempts ws) 1 None ws"

text \<open>
  \<open>notifyQueueFinish\<close> is best effort: without a configured URL nothing is sent, and a
  failure is logged and dropped.
\<close>

definition notifyQueueFinish ::
  "(string \<Rightarrow> bool) \<Rightarrow> (nat \<Rightarrow> http_outcome) \<Rightarrow> webhook_service \<Rightarrow> webhook_service" where
  "notifyQueueFinish url_ok http ws =
     (case finishWebhookUrl ws of
        None \<Rightarrow> ws
      | Some url \<Rightarrow>
          if url = [] then ws else fst (sendWebhookWithRetry url_ok ws url http))"

section \<open>Deduplication store (DeduplicationService)\<close>

record processing_info =
  startTime :: nat
  pi_queue :: string
  pi_deliveryTag :: nat
  pi_webhook :: string

text \<open>The processed set keeps insertion order (a JavaScript \<open>Set\<close>).\<close>

record dedup =
  processedMessages :: "string list"
  processingMessages :: "string \<rightharpoonup> processing_info"
  maxProcessedMessages :: nat

definition new_dedup :: dedup where
  "new_dedup =
     \<lparr>processedMessages = [], processingMessages = Map.empty,
      maxProcessedMessages = maxProcessedMessages_cfg\<rparr>"

definition cleanupOldMessages :: "dedup \<Rightarrow> dedup" where
  "cleanupOldMessages d =
     (let currentSize = length (processedMessages d)
      in if currentSize > maxProcessedMessages d
         then d\<lparr>processedMessages :=
                  drop (currentSize - maxProcessedMessages d) (processedMessages d)\<rparr>
         else d)"

definition isMessageProcessed :: "dedup \<Rightarrow> string \<Rightarrow> bool" where
  "isMessageProcessed d messageId =
     (if messageId = [] then False else messageId \<in> set (processedMessages d))"

definition markMessageProcessed :: "dedup \<Rightarrow> string \<Rightarrow> dedup" where
  "markMessageProcessed d messageId =
     (if messageId = [] then d
      else if messageId \<in> set (processedMessages d) then d
      else d\<lparr>processedMessages := processedMessages d @ [messageId]\<rparr>)"

definition isMessageProcessing :: "dedup \<Rightarrow> string \<Rightarrow> bool" where
  "isMessageProcessing d messageId =
     (if messageId = [] then False else processingMessages d messageId \<noteq> None)"

definition markMessageProcessing :: "dedup \<Rightarrow> string \<Rightarrow> processing_info \<Rightarrow> dedup" where
  "markMessageProcessing d messageId info =
     (if messageId = [] then d
      else d\<lparr>processingMessages := (processingMessages d)(messageId \<mapsto> info)\<rparr>)"

definition removeMessageFromProcessing :: "dedup \<Rightarrow> string \<Rightarrow> dedup" where
  "removeMessageFromProcessing d messageId =
     (if messageId = [] then d
      else d\<lparr>processingMessages := (processingMessages d)(messageId := None)\<rparr>)"

definition clear :: "dedup \<Rightarrow> dedup" where
  "clear d = d\<lparr>processedMessages := [], processingMessages := Map.empty\<rparr>"

section \<open>Message processor (MessageProcessor)\<close>

datatype action = Ack | Nack | Skip

datatype reason =
    Null_message
  | Duplicate
  | Paused
  | Outside_business_hours
  | Parse_error
  | Success
  | Webhook_retry
  | Webhook_permanent_error
  | Unexpected_error

record disposition =
  action :: action
  reason :: reason
  messageContent :: "string option"

record processor_stats =
  n_processed :: nat
  n_failed :: nat
  n_skipped :: nat
  n_duplicates :: nat
  n_outsideBusinessHours :: nat
  n_paused :: nat

text \<open>The processor together with the three services it was constructed with.\<close>

record processor =
  stats :: processor_stats
  deduplicationService :: dedup
  rabbitMQService :: rabbit
  webhookService :: webhook_service

record queue_config =
  queue :: string
  webhook :: string
  minInterval :: number
  maxInterval :: number
  businessHours :: "business_hours option"
  paused :: bool

text \<open>
  What the surroundings do during one call: the clock, the current hour in the
  configured time zone, whether the \<open>URL\<close> constructor and \<open>JSON.parse\<close> accept a
  string, what each POST meets, and what the channel does when \<open>ack\<close> or \<open>nack\<close> is
  called on it.
\<close>

record env =
  now :: nat
  hour :: int
  url_parses :: "string \<Rightarrow> bool"
  json_parses :: "string \<Rightarrow> bool"
  http :: "nat \<Rightarrow> http_outcome"
  channel_out :: "amqp_error option"

datatype js_exn = TypeError | AmqpError amqp_error

datatype webhook_result = WSuccess nat | WFailure "webhook_error option"

definition sendToWebhook ::
  "env \<Rightarrow> webhook_service \<Rightarrow> string \<Rightarrow> webhook_service \<times> webhook_result" where
  "sendToWebhook e ws webhookUrl =
     (let r = sendWebhookWithRetry (url_parses e) ws webhookUrl (http e)
      in case snd r of
           Inr result \<Rightarrow> (fst r, WSuccess result)
         | Inl error \<Rightarrow> (fst r, WFailure error))"

text \<open>\<open>shouldRetryMessage\<close>; reading \<open>status\<close> of \<open>undefined\<close> is a \<open>TypeError\<close>.\<close>

definition shouldRetryMessage :: "webhook_error option \<Rightarrow> js_exn + bool" where
  "shouldRetryMessage error =
     (case error of
        None \<Rightarrow> Inl TypeError
      | Some err \<Rightarrow> if is_client_error err then Inr False else Inr True)"

text \<open>The calls \<open>await this.rabbitMQService.ackMessage(msg)\<close> and
  \<open>await this.rabbitMQService.nackMessage(msg, false, true)\<close> inside the processor.\<close>

definition ack_step :: "env \<Rightarrow> processor \<Rightarrow> delivery \<Rightarrow> processor \<times> (js_exn + unit)" where
  "ack_step e p m =
     (let r = ackMessage (rabbitMQService p) (channel_out e) (Some m)
      in (p\<lparr>rabbitMQService := fst r\<rparr>,
          case snd r of Inl err \<Rightarrow> Inl (AmqpError err) | Inr u \<Rightarrow> Inr u))"

definition nack_step :: "env \<Rightarrow> processor \<Rightarrow> delivery \<Rightarrow> processor \<times> (js_exn + unit)" where
  "nack_step e p m =
     (let r = nackMessage (rabbitMQService p) (channel_out e) (Some m) False True
      in (p\<lparr>rabbitMQService := fst r\<rparr>,
          case snd r of Inl err \<Rightarrow> Inl (AmqpError err) | Inr u \<Rightarrow> Inr u))"

definition markProcessed_step :: "string \<Rightarrow> processor \<Rightarrow> processor" where
  "markProcessed_step messageId p =
     p\<lparr>deduplicationService := markMessageProcessed (deduplicationService p) messageId\<rparr>"

definition bump_failed :: "processor \<Rightarrow> processor" where
  "bump_failed p = p\<lparr>stats := (stats p)\<lparr>n_failed := n_failed (stats p) + 1\<rparr>\<rparr>"

text \<open>The \<open>try\<close> block of \<open>processMessage\<close>; \<open>Inl\<close> is an exception leaving it.\<close>

definition try_block ::
  "env \<Rightarrow> processor \<Rightarrow> delivery \<Rightarrow> string \<Rightarrow> queue_config
     \<Rightarrow> processor \<times> (js_exn + disposition)" where
  "try_block e p m messageId cfg =
     (if isMessageProcessed (deduplicationService p) messageId
      then (p\<lparr>stats := (stats p)\<lparr>n_duplicates := n_duplicates (stats p) + 1,
                                 n_skipped := n_skipped (stats p) + 1\<rparr>\<rparr>,
            Inr \<lparr>action = Skip, reason = Duplicate, messageContent = None\<rparr>)
      else if paused cfg
      then
        (let r = nack_step e p m
         in case snd r of
              Inl exn \<Rightarrow> (fst r, Inl exn)
            | Inr u \<Rightarrow>
                ((fst r)\<lparr>stats := (stats (fst r))\<lparr>n_paused := n_paused (stats (fst r)) + 1,
                                                  n_skipped := n_skipped (stats (fst r)) + 1\<rparr>\<rparr>,
                 Inr \<lparr>action = Nack, reason = Paused, messageContent = None\<rparr>))
      else if \<not> isWithinBusinessHours (hour e) (businessHours cfg)
      then
        (let r = nack_step e p m
         in case snd r of
              Inl exn \<Rightarrow> (fst r, Inl exn)
            | Inr u \<Rightarrow>
                ((fst r)\<lparr>stats := (stats (fst r))
                     \<lparr>n_outsideBusinessHours := n_outsideBusinessHours (stats (fst r)) + 1,
                      n_skipped := n_skipped (stats (fst r)) + 1\<rparr>\<rparr>,
                 Inr \<lparr>action = Nack, reason = Outside_business_hours, messageContent = None\<rparr>))
      else
        (let p1 = p\<lparr>deduplicationService :=
                      markMessageProcessing (deduplicationService p) messageId
                        \<lparr>startTime = now e, pi_queue = queue cfg,
                         pi_deliveryTag = deliveryTag m, pi_webhook = webhook cfg\<rparr>\<rparr>
         in if \<not> json_parses e (content m)
            then
              (let r = ack_step e p1 m
               in case snd r of
                    Inl exn \<Rightarrow> (fst r, Inl exn)
                  | Inr u \<Rightarrow>
                      (bump_failed (markProcessed_step messageId (fst r)),
                       Inr \<lparr>action = Ack, reason = Parse_error, messageContent = None\<rparr>))
            else
              (let w = sendToWebhook e (webhookService p1) (webhook cfg);
                   p2 = p1\<lparr>webhookService := fst w\<rparr>
               in case snd w of
                    WSuccess status \<Rightarrow>
                      (let r = ack_step e p2 m
                       in case snd r of
                            Inl exn \<Rightarrow> (fst r, Inl exn)
                          | Inr u \<Rightarrow>
                              ((markProcessed_step messageId (fst r))
                                 \<lparr>stats := (stats (fst r))
                                    \<lparr>n_processed := n_processed (stats (fst r)) + 1\<rparr>\<rparr>,
                               Inr \<lparr>action = Ack, reason = Success,
                                    messageContent = Some (content m)\<rparr>))
                  | WFailure error \<Rightarrow>
                      (case shouldRetryMessage error of
                         Inl exn \<Rightarrow> (p2, Inl exn)
                       | Inr shouldRetry \<Rightarrow>
                           if shouldRetry
                           then
                             (let r = nack_step e p2 m
                              in case snd r of
                                   Inl exn \<Rightarrow> (fst r, Inl exn)
                                 | Inr u \<Rightarrow>
                                     (bump_failed (fst r),
                                      Inr \<lparr>action = Nack, reason = Webhook_retry,
                                           messageContent = None\<rparr>))
                           else
                             (let r = ack_step e p2 m
                              in case snd r of
                                   Inl exn \<Rightarrow> (fst r, Inl exn)
                                 | Inr u \<Rightarrow>
                                     (bump_failed (markProcessed_step messageId (fst r)),
                                      Inr \<lparr>action = Ack, reason = Webhook_permanent_error,
                                           messageContent = None\<rparr>))))))"

text \<open>The \<open>catch\<close> block.\<close>

definition catch_block ::
  "env \<Rightarrow> processor \<Rightarrow> delivery \<Rightarrow> processor \<times> (js_exn + disposition)" where
  "catch_block e p m =
     (let r = nack_step e p m
      in case snd r of
           Inl exn \<Rightarrow> (fst r, Inl exn)
         | Inr u \<Rightarrow>
             (bump_failed (fst r),
              Inr \<lparr>action = Nack, reason = Unexpected_error, messageContent = None\<rparr>))"

text \<open>The \<open>finally\<close> block.\<close>

definition finally_block :: "string \<Rightarrow> processor \<Rightarrow> processor" where
  "finally_block messageId p =
     p\<lparr>deduplicationService := removeMessageFromProcessing (deduplicationService p) messageId\<rparr>"

definition processMessage ::
  "env \<Rightarrow> processor \<Rightarrow> delivery option \<Rightarrow> queue_config
     \<Rightarrow> processor \<times> (js_exn + disposition)" where
  "processMessage e p msg queueConfig =
     (case msg of
        None \<Rightarrow> (p, Inr \<lparr>action = Skip, reason = Null_message, messageContent = None\<rparr>)
      | Some m \<Rightarrow>
          (let messageId = generateMessageId m;
               t = try_block e p m messageId queueConfig;
               c = (case snd t of
                      Inr d \<Rightarrow> (fst t, Inr d)
                    | Inl error \<Rightarrow> catch_block e (fst t) m)
           in (finally_block messageId (fst c), snd c)))"

section \<open>Reconnection controller (ReconnectionService)\<close>

datatype reconnection_event =
    MaxAttemptsReached
  | ReconnectionStarted nat
  | ReconnectionSuccessful
  | ReconnectionFailed string

text \<open>
  The controller's state. The pending timer is recorded by the attempt number whose
  backoff delay it waits for (the delay itself is a floating-point power of 1.5).
\<close>

record reconnection =
  isReconnecting :: bool
  reconnectAttempts :: nat
  lastReconnectTime :: int
  reconnectTimeout :: "nat option"
  rc_shuttingDown :: bool
  maxAttempts :: nat
  debounceMs :: int
  rc_events :: "reconnection_event list"

definition new_reconnection :: reconnection where
  "new_reconnection =
     \<lparr>isReconnecting = False, reconnectAttempts = 0, lastReconnectTime = 0,
      reconnectTimeout = None, rc_shuttingDown = False,
      maxAttempts = reconnection_maxAttempts, debounceMs = reconnection_debounceMs,
      rc_events = []\<rparr>"

text \<open>\<open>shouldAttemptReconnection\<close> of the first version of the service; \<open>t\<close> is
  \<open>Date.now()\<close>.\<close>

definition shouldAttemptReconnection :: "reconnection \<Rightarrow> rabbit \<Rightarrow> int \<Rightarrow> reconnection \<times> bool" where
  "shouldAttemptReconnection rc r t =
     (if rc_shuttingDown rc then (rc, False)
      else if isReconnecting rc then (rc, False)
      else if isChannelReady r then (rc, False)
      else if t - lastReconnectTime rc < debounceMs rc then (rc, False)
      else if reconnectAttempts rc \<ge> maxAttempts rc
      then (rc\<lparr>rc_events := rc_events rc @ [MaxAttemptsReached]\<rparr>, False)
      else (rc, True))"

text \<open>\<open>shouldAttemptReconnection\<close> of the second version of the service, which does not
  look at the channel.\<close>

definition shouldAttemptReconnection_v2 :: "reconnection \<Rightarrow> rabbit \<Rightarrow> int \<Rightarrow> reconnection \<times> bool" where
  "shouldAttemptReconnection_v2 rc r t =
     (if rc_shuttingDown rc then (rc, False)
      else if isReconnecting rc then (rc, False)
      else if t - lastReconnectTime rc < debounceMs rc then (rc, False)
      else if reconnectAttempts rc \<ge> maxAttempts rc
      then (rc\<lparr>rc_events := rc_events rc @ [MaxAttemptsReached]\<rparr>, False)
      else (rc, True))"

text \<open>\<open>scheduleReconnection\<close> and \<open>attemptReconnection\<close> have the same text in both
  versions; the argument \<open>should\<close> is the version's \<open>shouldAttemptReconnection\<close>.\<close>

definition scheduleReconnection_with ::
  "(reconnection \<Rightarrow> rabbit \<Rightarrow> int \<Rightarrow> reconnection \<times> bool)
     \<Rightarrow> reconnection \<Rightarrow> rabbit \<Rightarrow> int \<Rightarrow> reconnection" where
  "scheduleReconnection_with should rc r t =
     (let d = should rc r t
      in if \<not> snd d then fst d
         else (fst d)\<lparr>reconnectTimeout := Some (reconnectAttempts (fst d) + 1)\<rparr>)"

definition cleanup :: "rabbit \<Rightarrow> rabbit" where
  "cleanup r = r\<lparr>connection := None, channel := None, isConnecting := False\<rparr>"

text \<open>\<open>connect\<close>; \<open>out\<close> is what opening the connection and the channel does.\<close>

definition connect :: "rabbit \<Rightarrow> amqp_error option \<Rightarrow> rabbit \<times> (amqp_error + unit)" where
  "connect r out =
     (if isConnecting r then (r, Inl \<lparr>err_code = None, err_message = ''Connection already in progress''\<rparr>)
      else
        (case out of
           Some err \<Rightarrow> (r\<lparr>isConnecting := False\<rparr>, Inl err)
         | None \<Rightarrow>
             (emit Connected
                (r\<lparr>connection := Some \<lparr>closing = False, closed = False\<rparr>,
                   channel := Some \<lparr>closing = False, closed = False\<rparr>,
                   isConnecting := False\<rparr>), Inr ())))"

definition resetReconnectionState :: "reconnection \<Rightarrow> reconnection" where
  "resetReconnectionState rc =
     rc\<lparr>reconnectAttempts := 0, isReconnecting := False, reconnectTimeout := None\<rparr>"

definition attemptReconnection_with ::
  "(reconnection \<Rightarrow> rabbit \<Rightarrow> int \<Rightarrow> reconnection \<times> bool)
     \<Rightarrow> reconnection \<Rightarrow> rabbit \<Rightarrow> int \<Rightarrow> amqp_error option \<Rightarrow> reconnection \<times> rabbit" where
  "attemptReconnection_with should rc r t connect_out =
     (let d = should rc r t
      in if \<not> snd d then (fst d, r)
         else
           (let rc1 = (fst d)\<lparr>lastReconnectTime := t, isReconnecting := True,
                              reconnectAttempts := reconnectAttempts (fst d) + 1\<rparr>;
                rc2 = rc1\<lparr>rc_events :=
                            rc_events rc1 @ [ReconnectionStarted (reconnectAttempts rc1)]\<rparr>;
                c = connect (cleanup r) connect_out
            in case snd c of
                 Inr u \<Rightarrow>
                   (let rc3 = resetReconnectionState rc2;
                        rc4 = rc3\<lparr>rc_events := rc_events rc3 @ [ReconnectionSuccessful]\<rparr>
                    in (rc4\<lparr>isReconnecting := False\<rparr>, fst c))
               | Inl error \<Rightarrow>
                   (let rc3 = rc2\<lparr>rc_events :=
                                   rc_events rc2 @ [ReconnectionFailed (err_message error)]\<rparr>;
                        rc4 = scheduleReconnection_with should rc3 (fst c) t
                    in (rc4\<lparr>isReconnecting := False\<rparr>, fst c))))"

definition scheduleReconnection :: "reconnection \<Rightarrow> rabbit \<Rightarrow> int \<Rightarrow> reconnection" where
  "scheduleReconnection = scheduleReconnection_with shouldAttemptReconnection"

definition attemptReconnection ::
  "reconnection \<Rightarrow> rabbit \<Rightarrow> int \<Rightarrow> amqp_error option \<Rightarrow> reconnection \<times> rabbit" where
  "attemptReconnection = attemptReconnection_with shouldAttemptReconnection"

definition scheduleReconnection_v2 :: "reconnection \<Rightarrow> rabbit \<Rightarrow> int \<Rightarrow> reconnection" where
  "scheduleReconnection_v2 = scheduleReconnection_with shouldAttemptReconnection_v2"

definition attemptReconnection_v2 ::
  "reconnection \<Rightarrow> rabbit \<Rightarrow> int \<Rightarrow> amqp_error option \<Rightarrow> reconnection \<times> rabbit" where
  "attemptReconnection_v2 = attemptReconnection_with shouldAttemptReconnection_v2"

text \<open>The handlers of the broker client's events (\<open>connectionError\<close>,
  \<open>connectionClosed\<close>, \<open>channelError\<close>, \<open>channelClosed\<close>, \<open>needsReconnection\<close>) have one
  body; \<open>forceReconnection\<close> drops the pending timer and attempts at once. Both belong to
  the first version.\<close>

definition handleNeedsReconnection :: "reconnection \<Rightarrow> rabbit \<Rightarrow> int \<Rightarrow> reconnection" where
  "handleNeedsReconnection rc r t =
     (if \<not> rc_shuttingDown rc then scheduleReconnection rc r t else rc)"

definition forceReconnection ::
  "reconnection \<Rightarrow> rabbit \<Rightarrow> int \<Rightarrow> amqp_error option \<Rightarrow> reconnection \<times> rabbit" where
  "forceReconnection rc r t out = attemptReconnection (rc\<lparr>reconnectTimeout := None\<rparr>) r t out"

section \<open>Persistence store (PersistenceService)\<close>

record persisted_config =
  pc_webhook :: string
  pc_minInterval :: "number option"
  pc_maxInterval :: "number option"
  pc_businessHours :: "business_hours option"
  savedAt :: nat

text \<open>
  The stored document is the \<open>queues\<close> object, an association list in key order.
  Reading and writing the file are taken to succeed; the service refuses to work
  before \<open>init\<close> has finished (\<open>isReady\<close>).
\<close>

record persistence =
  isReady :: bool
  queues :: "(string \<times> persisted_config) list"

definition mk_error :: "string \<Rightarrow> amqp_error" where
  "mk_error msg = \<lparr>err_code = None, err_message = msg\<rparr>"

definition saveQueueConfig ::
  "persistence \<Rightarrow> string \<Rightarrow> persisted_config \<Rightarrow> persistence \<times> (amqp_error + unit)" where
  "saveQueueConfig ps queueName config =
     (if \<not> isReady ps then (ps, Inl (mk_error ''Persistence service not ready''))
      else (ps\<lparr>queues := AList.update queueName config (queues ps)\<rparr>, Inr ()))"

definition removeQueueConfig ::
  "persistence \<Rightarrow> string \<Rightarrow> persistence \<times> (amqp_error + bool)" where
  "removeQueueConfig ps queueName =
     (if \<not> isReady ps then (ps, Inl (mk_error ''Persistence service not ready''))
      else
        (case map_of (queues ps) queueName of
           Some c \<Rightarrow> (ps\<lparr>queues := AList.delete queueName (queues ps)\<rparr>, Inr True)
         | None \<Rightarrow> (ps, Inr False)))"

definition loadQueueConfigs ::
  "persistence \<Rightarrow> amqp_error + (string \<times> persisted_config) list" where
  "loadQueueConfigs ps =
     (if \<not> isReady ps then Inl (mk_error ''Persistence service not ready'')
      else Inr (queues ps))"

definition loadQueueConfig :: "persistence \<Rightarrow> string \<Rightarrow> amqp_error + persisted_config option" where
  "loadQueueConfig ps queueName =
     (case loadQueueConfigs ps of
        Inl err \<Rightarrow> Inl err
      | Inr configs \<Rightarrow> Inr (map_of configs queueName))"

definition clearAll :: "persistence \<Rightarrow> persistence" where
  "clearAll ps = ps\<lparr>queues := []\<rparr>"

text \<open>\<open>restoreFromBackup\<close>; the argument is the \<open>queues\<close> object of the backup file, or
  \<open>None\<close> when the file has none.\<close>

definition restoreFromBackup ::
  "persistence \<Rightarrow> (string \<times> persisted_config) list option
     \<Rightarrow> persistence \<times> (amqp_error + string list)" where
  "restoreFromBackup ps backup =
     (case backup of
        None \<Rightarrow> (ps, Inl (mk_error ''Invalid backup file structure''))
      | Some qs \<Rightarrow> (ps\<lparr>queues := qs\<rparr>, Inr (map fst qs)))"

section \<open>Consumer engine (ConsumerService)\<close>

record consumer_config =
  consumerTag :: string
  cc_webhook :: string
  cc_minInterval :: number
  cc_maxInterval :: number
  cc_businessHours :: "business_hours option"
  cc_paused :: bool
  lastMessage :: "string option"
  createdAt :: nat
  cc_messageCount :: nat

datatype engine_event =
    ConsumerStarted string
  | ConsumerStopped string string
  | ConsumerCancelled string
  | ConsumerPaused string
  | ConsumerResumed string
  | MessageProcessed string disposition
  | QueueDeletedExternally string
  | ConsumersReestablished nat nat
  | QueuesRestored nat nat nat nat
  | ShutdownDone
  | Initialized

text \<open>
  The engine: its two tables, its flags, the processor (which holds the broker client,
  the deduplication store and the webhook sender the engine shares with it), the
  persistence store (absent when none was passed) and the events it emitted.
\<close>

record engine =
  activeConsumers :: "(string \<times> consumer_config) list"
  queueIntervals :: "(string \<times> number) list"
  isShuttingDown :: bool
  isInitialized :: bool
  messageProcessor :: processor
  persistenceService :: "persistence option"
  engine_events :: "engine_event list"

text \<open>
  The surroundings of an engine operation: those of the processor, the next random
  interval, an exception a listener of an emitted event may throw, what the broker
  answers to \<open>checkQueue\<close>, \<open>consume\<close> and \<open>cancel\<close>, and what opening a
  connection does.
\<close>

record surroundings =
  call_env :: env
  random_interval :: number
  listener_throws :: "js_exn option"
  check_out :: "string \<Rightarrow> amqp_error + queue_info"
  consume_out :: "string \<Rightarrow> amqp_error + string"
  cancel_out :: "string \<Rightarrow> amqp_error + unit"
  connect_out :: "amqp_error option"

definition rabbit_of :: "engine \<Rightarrow> rabbit" where
  "rabbit_of en = rabbitMQService (messageProcessor en)"

definition set_rabbit :: "rabbit \<Rightarrow> engine \<Rightarrow> engine" where
  "set_rabbit r en = en\<lparr>messageProcessor := (messageProcessor en)\<lparr>rabbitMQService := r\<rparr>\<rparr>"

definition emitE :: "engine_event \<Rightarrow> engine \<Rightarrow> engine" where
  "emitE ev en = en\<lparr>engine_events := engine_events en @ [ev]\<rparr>"

text \<open>\<open>await this.persistenceService.removeQueueConfig(queueName)\<close> inside
  \<open>if (this.persistenceService) { try { ... } catch { log } }\<close>.\<close>

definition remove_persisted :: "string \<Rightarrow> engine \<Rightarrow> engine" where
  "remove_persisted queueName en =
     (case persistenceService en of
        None \<Rightarrow> en
      | Some ps \<Rightarrow> en\<lparr>persistenceService := Some (fst (removeQueueConfig ps queueName))\<rparr>)"

definition notify_finish :: "surroundings \<Rightarrow> engine \<Rightarrow> engine" where
  "notify_finish s en =
     en\<lparr>messageProcessor := (messageProcessor en)
          \<lparr>webhookService :=
             notifyQueueFinish (url_parses (call_env s)) (http (call_env s))
               (webhookService (messageProcessor en))\<rparr>\<rparr>"

definition engine_nack :: "surroundings \<Rightarrow> engine \<Rightarrow> delivery \<Rightarrow> engine \<times> (js_exn + unit)" where
  "engine_nack s en m =
     (let r = nack_step (call_env s) (messageProcessor en) m
      in (en\<lparr>messageProcessor := fst r\<rparr>, snd r))"

text \<open>The closure built by \<open>createMessageHandler\<close>.\<close>

record handler_closure =
  h_queueName :: string
  h_webhook :: string
  h_minInterval :: number
  h_maxInterval :: number
  h_businessHours :: "business_hours option"

text \<open>
  The message handler. The pacing sleep is not modelled. The statements after
  \<open>processMessage\<close> inside the \<open>try\<close> block end with \<open>emit('messageProcessed')\<close>,
  whose listeners may throw; the \<open>catch\<close> block then decides on the nack.
\<close>

definition messageHandler ::
  "surroundings \<Rightarrow> handler_closure \<Rightarrow> engine \<Rightarrow> delivery option \<Rightarrow> engine \<times> (js_exn + unit)" where
  "messageHandler s h en msg =
     (case msg of
        None \<Rightarrow>
          (let en1 = en\<lparr>activeConsumers := AList.delete (h_queueName h) (activeConsumers en),
                         queueIntervals := AList.delete (h_queueName h) (queueIntervals en)\<rparr>;
               en2 = remove_persisted (h_queueName h) en1
           in (emitE (ConsumerCancelled (h_queueName h)) en2, Inr ()))
      | Some m \<Rightarrow>
          (case map_of (activeConsumers en) (h_queueName h) of
             None \<Rightarrow> engine_nack s en m
           | Some consumerConfig \<Rightarrow>
               (let pr = processMessage (call_env s) (messageProcessor en) (Some m)
                           \<lparr>queue = h_queueName h, webhook = h_webhook h,
                            minInterval = h_minInterval h, maxInterval = h_maxInterval h,
                            businessHours = h_businessHours h,
                            paused = cc_paused consumerConfig\<rparr>;
                    en1 = en\<lparr>messageProcessor := fst pr\<rparr>
                in case snd pr of
                     Inl exn \<Rightarrow> engine_nack s en1 m
                   | Inr messageProcessingResult \<Rightarrow>
                       (let cc1 = consumerConfig
                                    \<lparr>cc_messageCount := cc_messageCount consumerConfig + 1\<rparr>;
                            cc2 = (case messageContent messageProcessingResult of
                                     None \<Rightarrow> cc1
                                   | Some c \<Rightarrow> cc1\<lparr>lastMessage := Some c\<rparr>);
                            en2 = en1\<lparr>activeConsumers :=
                                        AList.update (h_queueName h) cc2 (activeConsumers en1)\<rparr>;
                            en3 = (if action messageProcessingResult = Ack \<and>
                                      reason messageProcessingResult = Success
                                   then en2\<lparr>queueIntervals :=
                                              AList.update (h_queueName h) (random_interval s)
                                                (queueIntervals en2)\<rparr>
                                   else en2)
                        in case listener_throws s of
                             None \<Rightarrow>
                               (emitE (MessageProcessed (h_queueName h) messageProcessingResult)
                                  en3, Inr ())
                           | Some error \<Rightarrow>
                               if action messageProcessingResult = Skip then (en3, Inr ())
                               else engine_nack s en3 m))))"

fun join_comma :: "string list \<Rightarrow> string" where
  "join_comma [] = []"
| "join_comma [x] = x"
| "join_comma (x # y # ys) = x @ '', '' @ join_comma (y # ys)"

text \<open>The errors the engine throws itself.\<close>

definition notInitializedError :: amqp_error where
  "notInitializedError = mk_error ''Service not initialized. Call initialize() first.''"

definition invalidConfigurationError :: "string list \<Rightarrow> amqp_error" where
  "invalidConfigurationError errs =
     mk_error (''Invalid queue configuration: '' @ join_comma errs)"

definition alreadyConsumedError :: "string \<Rightarrow> amqp_error" where
  "alreadyConsumedError queueName =
     mk_error (''Queue '' @ queueName @ '' is already being consumed'')"

definition notConsumedError :: "string \<Rightarrow> amqp_error" where
  "notConsumedError queueName = mk_error (''Queue '' @ queueName @ '' is not being consumed'')"

definition save_persisted :: "surroundings \<Rightarrow> string \<Rightarrow> persisted_config \<Rightarrow> engine \<Rightarrow> engine" where
  "save_persisted s queueName config en =
     (case persistenceService en of
        None \<Rightarrow> en
      | Some ps \<Rightarrow> en\<lparr>persistenceService := Some (fst (saveQueueConfig ps queueName config))\<rparr>)"

definition startConsuming ::
  "surroundings \<Rightarrow> engine \<Rightarrow> string \<Rightarrow> string \<Rightarrow> number option \<Rightarrow> number option
     \<Rightarrow> business_hours option \<Rightarrow> engine \<times> (amqp_error + consumer_config)" where
  "startConsuming s en queueName wh mi ma bh =
     (if \<not> isInitialized en
      then (en, Inl notInitializedError)
      else
        (let v = validateQueueConfig (url_parses (call_env s))
                   \<lparr>qc_queue = queueName, qc_webhook = wh, qc_minInterval = mi,
                    qc_maxInterval = ma, qc_businessHours = bh\<rparr>
         in if \<not> isValid v
            then (en, Inl (invalidConfigurationError (errors v)))
            else if map_of (activeConsumers en) queueName \<noteq> None
            then (en, Inl (alreadyConsumedError queueName))
            else
              (let c = checkQueue (rabbit_of en) queueName (check_out s queueName)
               in case snd c of
                    Inl err \<Rightarrow> (set_rabbit (fst c) en, Inl err)
                  | Inr info \<Rightarrow>
                      (let k = createConsumer (fst c) queueName (consume_out s queueName)
                       in case snd k of
                            Inl err \<Rightarrow> (set_rabbit (fst k) en, Inl err)
                          | Inr tag \<Rightarrow>
                              (let consumerConfig =
                                     \<lparr>consumerTag = tag, cc_webhook = wh,
                                      cc_minInterval = sanitized_minInterval v,
                                      cc_maxInterval = sanitized_maxInterval v,
                                      cc_businessHours = bh, cc_paused = False,
                                      lastMessage = None, createdAt = now (call_env s),
                                      cc_messageCount = 0\<rparr>;
                                   en1 = (set_rabbit (fst k) en)
                                     \<lparr>activeConsumers :=
                                        AList.update queueName consumerConfig
                                          (activeConsumers en),
                                      queueIntervals :=
                                        AList.update queueName (random_interval s)
                                          (queueIntervals en)\<rparr>;
                                   en2 = save_persisted s queueName
                                     \<lparr>pc_webhook = wh,
                                      pc_minInterval = Some (sanitized_minInterval v),
                                      pc_maxInterval = Some (sanitized_maxInterval v),
                                      pc_businessHours = bh, savedAt = now (call_env s)\<rparr> en1
                               in (emitE (ConsumerStarted queueName) en2,
                                   Inr consumerConfig))))))"

text \<open>\<open>stopConsuming(queueName, reason = 'manual')\<close>. An error of \<open>cancelConsumer\<close> is
  rethrown before anything is removed.\<close>

definition stopConsuming ::
  "surroundings \<Rightarrow> engine \<Rightarrow> string \<Rightarrow> string \<Rightarrow> engine \<times> (amqp_error + unit)" where
  "stopConsuming s en queueName rsn =
     (case map_of (activeConsumers en) queueName of
        None \<Rightarrow> (en, Inl (notConsumedError queueName))
      | Some consumerConfig \<Rightarrow>
          (let c = (if consumerTag consumerConfig \<noteq> [] \<and> isChannelReady (rabbit_of en)
                    then cancelConsumer (rabbit_of en) (consumerTag consumerConfig)
                           (cancel_out s (consumerTag consumerConfig))
                    else (rabbit_of en, Inr ()))
           in case snd c of
                Inl err \<Rightarrow> (set_rabbit (fst c) en, Inl err)
              | Inr u \<Rightarrow>
                  (let en1 = (set_rabbit (fst c) en)
                         \<lparr>activeConsumers := AList.delete queueName (activeConsumers en),
                          queueIntervals := AList.delete queueName (queueIntervals en)\<rparr>;
                       en2 = (if rsn = ''manual'' then remove_persisted queueName en1 else en1)
                   in (emitE (ConsumerStopped queueName rsn) en2, Inr ()))))"

definition pauseConsuming :: "engine \<Rightarrow> string \<Rightarrow> engine \<times> (amqp_error + unit)" where
  "pauseConsuming en queueName =
     (case map_of (activeConsumers en) queueName of
        None \<Rightarrow> (en, Inl (notConsumedError queueName))
      | Some consumerConfig \<Rightarrow>
          if cc_paused consumerConfig
          then (en, Inl (mk_error (''Queue '' @ queueName @ '' is already paused'')))
          else (emitE (ConsumerPaused queueName)
                  (en\<lparr>activeConsumers :=
                        AList.update queueName (consumerConfig\<lparr>cc_paused := True\<rparr>)
                          (activeConsumers en)\<rparr>), Inr ()))"

definition resumeConsuming :: "engine \<Rightarrow> string \<Rightarrow> engine \<times> (amqp_error + unit)" where
  "resumeConsuming en queueName =
     (case map_of (activeConsumers en) queueName of
        None \<Rightarrow> (en, Inl (notConsumedError queueName))
      | Some consumerConfig \<Rightarrow>
          if \<not> cc_paused consumerConfig
          then (en, Inl (mk_error (''Queue '' @ queueName @ '' is not paused'')))
          else (emitE (ConsumerResumed queueName)
                  (en\<lparr>activeConsumers :=
                        AList.update queueName (consumerConfig\<lparr>cc_paused := False\<rparr>)
                          (activeConsumers en)\<rparr>), Inr ()))"

definition handleExternallyDeletedQueue :: "surroundings \<Rightarrow> engine \<Rightarrow> string \<Rightarrow> engine" where
  "handleExternallyDeletedQueue s en queueName =
     (let consumerConfig = map_of (activeConsumers en) queueName;
          en1 = (if consumerConfig \<noteq> None
                 then en\<lparr>activeConsumers := AList.delete queueName (activeConsumers en),
                         queueIntervals := AList.delete queueName (queueIntervals en)\<rparr>
                 else en);
          en2 = remove_persisted queueName en1;
          en3 = (if consumerConfig \<noteq> None then notify_finish s en2 else en2)
      in emitE (QueueDeletedExternally queueName) en3)"

text \<open>\<open>handleConsumerCancelled\<close>: the first active consumer with the cancelled tag.\<close>

fun find_by_tag :: "string \<Rightarrow> (string \<times> consumer_config) list \<Rightarrow> string option" where
  "find_by_tag tag [] = None"
| "find_by_tag tag ((queueName, config) # rest) =
     (if consumerTag config = tag then Some queueName else find_by_tag tag rest)"

definition handleConsumerCancelled :: "surroundings \<Rightarrow> engine \<Rightarrow> string \<Rightarrow> engine" where
  "handleConsumerCancelled s en tag =
     (case find_by_tag tag (activeConsumers en) of
        None \<Rightarrow> en
      | Some queueName \<Rightarrow>
          (let en1 = notify_finish s en;
               en2 = en1\<lparr>activeConsumers := AList.delete queueName (activeConsumers en1),
                         queueIntervals := AList.delete queueName (queueIntervals en1)\<rparr>;
               en3 = remove_persisted queueName en2
           in emitE (ConsumerCancelled queueName) en3))"

text \<open>The test for a queue that no longer exists, as the health monitor, the restore and
  the orphan cleanup write it.\<close>

definition is_not_found :: "amqp_error \<Rightarrow> bool" where
  "is_not_found error =
     (let errorMessage = toLowerCase (err_message error)
      in str_includes errorMessage ''not_found'' \<or>
         str_includes errorMessage ''does not exist'' \<or>
         str_includes errorMessage ''no queue'' \<or>
         err_code error = Some 404)"

definition is_connection_error :: "amqp_error \<Rightarrow> bool" where
  "is_connection_error error =
     (let errorMessage = toLowerCase (err_message error)
      in str_includes errorMessage ''channel closed'' \<or>
         str_includes errorMessage ''connection closed'' \<or>
         str_includes errorMessage ''socket closed'')"

text \<open>The periodic health check: the loop over the active queues, then the tick.\<close>

fun health_loop :: "surroundings \<Rightarrow> string list \<Rightarrow> engine \<Rightarrow> engine" where
  "health_loop s [] en = en"
| "health_loop s (queueName # rest) en =
     (let c = checkQueue (rabbit_of en) queueName (check_out s queueName);
          en1 = set_rabbit (fst c) en
      in case snd c of
           Inr info \<Rightarrow> health_loop s rest en1
         | Inl error \<Rightarrow>
             if is_not_found error
             then health_loop s rest (handleExternallyDeletedQueue s en1 queueName)
             else if is_connection_error error
             then set_rabbit (emit (NeedsReconnection error) (rabbit_of en1)) en1
             else health_loop s rest en1)"

definition healthCheckTick :: "surroundings \<Rightarrow> engine \<Rightarrow> engine" where
  "healthCheckTick s en =
     (if isShuttingDown en \<or> \<not> isInitialized en then en
      else
        (let activeQueues = map fst (activeConsumers en)
         in if activeQueues = [] then en
            else if \<not> isChannelReady (rabbit_of en)
            then set_rabbit
                   (emit (NeedsReconnection (mk_error ''Channel not ready during health check''))
                      (rabbit_of en)) en
            else health_loop s activeQueues en))"

text \<open>\<open>handleReconnectionSuccess\<close>: every consumer of the old table is started again.\<close>

definition reestablish_failed :: "string \<Rightarrow> amqp_error \<Rightarrow> engine \<Rightarrow> engine" where
  "reestablish_failed queueName error en =
     (if str_includes (err_message error) ''does not exist''
      then remove_persisted queueName en else en)"

fun reestablish_loop ::
  "surroundings \<Rightarrow> (string \<times> consumer_config) list \<Rightarrow> engine \<times> nat \<times> nat
     \<Rightarrow> engine \<times> nat \<times> nat" where
  "reestablish_loop s [] acc = acc"
| "reestablish_loop s ((queueName, config) # rest) (en, reestablished, failed) =
     (let c = checkQueue (rabbit_of en) queueName (check_out s queueName);
          en1 = set_rabbit (fst c) en
      in case snd c of
           Inl error \<Rightarrow>
             reestablish_loop s rest
               (reestablish_failed queueName error en1, reestablished, failed + 1)
         | Inr info \<Rightarrow>
             (let st = startConsuming s en1 queueName (cc_webhook config)
                         (Some (cc_minInterval config)) (Some (cc_maxInterval config))
                         (cc_businessHours config)
              in case snd st of
                   Inl error \<Rightarrow>
                     reestablish_loop s rest
                       (reestablish_failed queueName error (fst st), reestablished, failed + 1)
                 | Inr started \<Rightarrow>
                     (let en2 = fst st;
                          en3 = (case map_of (activeConsumers en2) queueName of
                                   None \<Rightarrow> en2
                                 | Some newConfig \<Rightarrow>
                                     en2\<lparr>activeConsumers :=
                                           AList.update queueName
                                             (newConfig\<lparr>cc_paused := cc_paused config,
                                                lastMessage := lastMessage config,
                                                cc_messageCount := cc_messageCount config\<rparr>)
                                             (activeConsumers en2)\<rparr>)
                      in reestablish_loop s rest (en3, reestablished + 1, failed))))"

definition handleReconnectionSuccess :: "surroundings \<Rightarrow> engine \<Rightarrow> engine" where
  "handleReconnectionSuccess s en =
     (let consumersToReestablish = activeConsumers en;
          r = reestablish_loop s consumersToReestablish
                (en\<lparr>activeConsumers := [], queueIntervals := []\<rparr>, 0, 0)
      in emitE (ConsumersReestablished (fst (snd r)) (snd (snd r))) (fst r))"

text \<open>\<open>restorePersistedQueues\<close>: every stored queue is started; the ones that are not
  found are removed from the store after the loop.\<close>

fun restore_loop ::
  "surroundings \<Rightarrow> (string \<times> persisted_config) list
     \<Rightarrow> engine \<times> nat \<times> nat \<times> nat \<times> string list
     \<Rightarrow> engine \<times> nat \<times> nat \<times> nat \<times> string list" where
  "restore_loop s [] acc = acc"
| "restore_loop s ((queueName, config) # rest) (en, restored, failed, skipped, toRemove) =
     (if map_of (activeConsumers en) queueName \<noteq> None
      then restore_loop s rest (en, restored, failed, skipped + 1, toRemove)
      else
        (let st = startConsuming s en queueName (pc_webhook config) (pc_minInterval config)
                    (pc_maxInterval config) (pc_businessHours config)
         in case snd st of
              Inr started \<Rightarrow>
                restore_loop s rest (fst st, restored + 1, failed, skipped, toRemove)
            | Inl startError \<Rightarrow>
                if is_not_found startError
                then restore_loop s rest
                       (fst st, restored, failed + 1, skipped, toRemove @ [queueName])
                else restore_loop s rest (fst st, restored, failed + 1, skipped, toRemove)))"

definition restorePersistedQueues :: "surroundings \<Rightarrow> engine \<Rightarrow> engine" where
  "restorePersistedQueues s en =
     (case persistenceService en of
        None \<Rightarrow> en
      | Some ps \<Rightarrow>
          (case loadQueueConfigs ps of
             Inl err \<Rightarrow> en
           | Inr savedConfigs \<Rightarrow>
               if savedConfigs = [] then en
               else
                 (let r = restore_loop s savedConfigs (en, 0, 0, 0, []);
                      toRemove = snd (snd (snd (snd r)));
                      en2 = fold remove_persisted toRemove (fst r)
                  in emitE (QueuesRestored (fst (snd r)) (fst (snd (snd r)))
                              (fst (snd (snd (snd r)))) (length toRemove)) en2)))"

text \<open>\<open>shutdown\<close>: every consumer is stopped with reason \<open>shutdown\<close>, then the services
  are shut down.\<close>

definition disconnect :: "rabbit \<Rightarrow> rabbit" where
  "disconnect r = emit Disconnected (r\<lparr>shuttingDown := True, connection := None, channel := None\<rparr>)"

fun shutdown_loop :: "surroundings \<Rightarrow> string list \<Rightarrow> engine \<Rightarrow> engine" where
  "shutdown_loop s [] en = en"
| "shutdown_loop s (queueName # rest) en =
     (let config = map_of (activeConsumers en) queueName;
          st = stopConsuming s en queueName ''shutdown''
      in case snd st of
           Inl err \<Rightarrow> shutdown_loop s rest (fst st)
         | Inr u \<Rightarrow>
             (case config of
                None \<Rightarrow> shutdown_loop s rest (fst st)
              | Some c \<Rightarrow>
                  if lastMessage c \<noteq> None
                  then shutdown_loop s rest (notify_finish s (fst st))
                  else shutdown_loop s rest (fst st)))"

definition shutdown :: "surroundings \<Rightarrow> engine \<Rightarrow> engine" where
  "shutdown s en =
     (if isShuttingDown en then en
      else
        (let en1 = en\<lparr>isShuttingDown := True\<rparr>;
             en2 = shutdown_loop s (map fst (activeConsumers en1)) en1;
             p = messageProcessor en2;
             en3 = en2\<lparr>messageProcessor :=
                         p\<lparr>deduplicationService := clear (deduplicationService p),
                           rabbitMQService := disconnect (rabbitMQService p)\<rparr>\<rparr>
         in emitE ShutdownDone en3))"

text \<open>\<open>initialize\<close>: connect, restore the stored queues, start the health monitor (whose
  ticks are transitions of their own).\<close>

definition initialize :: "surroundings \<Rightarrow> engine \<Rightarrow> engine \<times> (amqp_error + unit)" where
  "initialize s en =
     (if isInitialized en then (en, Inr ())
      else
        (let c = connect (rabbit_of en) (connect_out s)
         in case snd c of
              Inl err \<Rightarrow> (set_rabbit (fst c) en, Inl err)
            | Inr u \<Rightarrow>
                (let en1 = (set_rabbit (fst c) en)\<lparr>isInitialized := True\<rparr>;
                     en2 = restorePersistedQueues s en1
                 in (emitE Initialized en2, Inr ()))))"

text \<open>\<open>checkQueueEmpty\<close> (no caller in the repository): a queue found empty is stopped
  with reason \<open>queue_empty\<close>; every error is swallowed.\<close>

definition checkQueueEmpty :: "surroundings \<Rightarrow> engine \<Rightarrow> string \<Rightarrow> engine" where
  "checkQueueEmpty s en queueName =
     (if \<not> isChannelReady (rabbit_of en) then en
      else
        (let c = checkQueue (rabbit_of en) queueName (check_out s queueName);
             en1 = set_rabbit (fst c) en
         in case snd c of
              Inl err \<Rightarrow> en1
            | Inr queueInfo \<Rightarrow>
                if messageCount queueInfo = 0
                then
                  (case map_of (activeConsumers en1) queueName of
                     None \<Rightarrow> en1
                   | Some consumerConfig \<Rightarrow>
                       (let st = stopConsuming s en1 queueName ''queue_empty''
                        in case snd st of
                             Inl err \<Rightarrow> fst st
                           | Inr u \<Rightarrow> notify_finish s (fst st)))
                else en1))"

section \<open>Control API (QueueController)\<close>

definition api_stopConsuming :: "surroundings \<Rightarrow> engine \<Rightarrow> string \<Rightarrow> engine" where
  "api_stopConsuming s en q =
     (if \<not> isValidQueueName q then en else fst (stopConsuming s en q ''api_request''))"

definition api_clearPersistedConfigs :: "engine \<Rightarrow> engine" where
  "api_clearPersistedConfigs en =
     (case persistenceService en of
        None \<Rightarrow> en
      | Some ps \<Rightarrow> en\<lparr>persistenceService := Some (clearAll ps)\<rparr>)"

fun orphans_loop :: "surroundings \<Rightarrow> string list \<Rightarrow> engine \<Rightarrow> engine" where
  "orphans_loop s [] en = en"
| "orphans_loop s (queueName # rest) en =
     (let c = checkQueue (rabbit_of en) queueName (check_out s queueName);
          en1 = set_rabbit (fst c) en;
          queueExists = (case snd c of Inr info \<Rightarrow> True | Inl error \<Rightarrow> \<not> is_not_found error)
      in if \<not> queueExists then orphans_loop s rest (remove_persisted queueName en1)
         else orphans_loop s rest en1)"

definition api_cleanupOrphanedConfigs :: "surroundings \<Rightarrow> engine \<Rightarrow> engine" where
  "api_cleanupOrphanedConfigs s en =
     (case persistenceService en of
        None \<Rightarrow> en
      | Some ps \<Rightarrow>
          (case loadQueueConfigs ps of
             Inl err \<Rightarrow> en
           | Inr persistedConfigs \<Rightarrow> orphans_loop s (map fst persistedConfigs) en))"

definition api_removePersistedQueue :: "engine \<Rightarrow> string \<Rightarrow> engine" where
  "api_removePersistedQueue en queueName =
     (case persistenceService en of
        None \<Rightarrow> en
      | Some ps \<Rightarrow>
          if queueName = [] then en
          else
            (case loadQueueConfig ps queueName of
               Inl err \<Rightarrow> en
             | Inr None \<Rightarrow> en
             | Inr (Some existingConfig) \<Rightarrow>
                 en\<lparr>persistenceService := Some (fst (removeQueueConfig ps queueName))\<rparr>))"

definition api_restoreFromBackup ::
  "engine \<Rightarrow> (string \<times> persisted_config) list option \<Rightarrow> engine" where
  "api_restoreFromBackup en backup =
     (case persistenceService en of
        None \<Rightarrow> en
      | Some ps \<Rightarrow> en\<lparr>persistenceService := Some (fst (restoreFromBackup ps backup))\<rparr>)"

section \<open>Transitions of the engine\<close>

text \<open>
  Everything that can happen to the engine: the broker invokes a message handler (with
  a delivery, or with \<open>null\<close> when the consumer was cancelled), the broker client
  reports a cancelled consumer tag, the health monitor ticks, the reconnection
  controller reports success, a service method is called, or a control request arrives.
  The requests that only read (queue information, reports, statistics, backup) are left
  out.
\<close>

datatype transition =
    Initialize
  | Deliver handler_closure "delivery option"
  | CheckQueueEmpty string
  | ConsumerCancelledEv string
  | HealthCheck
  | ReconnectionSuccess
  | RestorePersisted
  | StartConsuming string string "number option" "number option" "business_hours option"
  | StopConsuming string string
  | PauseConsuming string
  | ResumeConsuming string
  | Shutdown
  | ApiStop string
  | ApiClearConfigs
  | ApiCleanupOrphans
  | ApiRemovePersisted string
  | ApiRestoreBackup "(string \<times> persisted_config) list option"

fun step :: "surroundings \<Rightarrow> engine \<Rightarrow> transition \<Rightarrow> engine" where
  "step s en Initialize = fst (initialize s en)"
| "step s en (Deliver h msg) = fst (messageHandler s h en msg)"
| "step s en (CheckQueueEmpty q) = checkQueueEmpty s en q"
| "step s en (ConsumerCancelledEv tag) = handleConsumerCancelled s en tag"
| "step s en HealthCheck = healthCheckTick s en"
| "step s en ReconnectionSuccess = handleReconnectionSuccess s en"
| "step s en RestorePersisted = restorePersistedQueues s en"
| "step s en (StartConsuming q wh mi ma bh) = fst (startConsuming s en q wh mi ma bh)"
| "step s en (StopConsuming q rsn) = fst (stopConsuming s en q rsn)"
| "step s en (PauseConsuming q) = fst (pauseConsuming en q)"
| "step s en (ResumeConsuming q) = fst (resumeConsuming en q)"
| "step s en Shutdown = shutdown s en"
| "step s en (ApiStop q) = api_stopConsuming s en q"
| "step s en ApiClearConfigs = api_clearPersistedConfigs en"
| "step s en ApiCleanupOrphans = api_cleanupOrphanedConfigs s en"
| "step s en (ApiRemovePersisted q) = api_removePersistedQueue en q"
| "step s en (ApiRestoreBackup backup) = api_restoreFromBackup en backup"

section \<open>Vocabulary of the properties\<close>

text \<open>A retryable outcome of a POST: status 500 or above, or no response at all.\<close>

definition retryable :: "http_outcome \<Rightarrow> bool" where
  "retryable out = (case out of NoResponse \<Rightarrow> True | Response status \<Rightarrow> status \<ge> 500)"

text \<open>A delivery that reaches the webhook dispatch: not a duplicate, consumer not paused,
  inside business hours, payload parses, webhook URL valid.\<close>

definition processable :: "env \<Rightarrow> processor \<Rightarrow> delivery \<Rightarrow> queue_config \<Rightarrow> bool" where
  "processable e p m cfg =
     (\<not> isMessageProcessed (deduplicationService p) (generateMessageId m) \<and>
      \<not> paused cfg \<and>
      isWithinBusinessHours (hour e) (businessHours cfg) \<and>
      json_parses e (content m) \<and>
      isValidUrl (url_parses e) (webhook cfg))"

text \<open>The channel call that belongs to a disposition's action.\<close>

fun broker_op_of :: "action \<Rightarrow> nat \<Rightarrow> channel_call list" where
  "broker_op_of Ack tag = [BasicAck tag]"
| "broker_op_of Nack tag = [BasicNack tag False True]"
| "broker_op_of Skip tag = []"

text \<open>Whether the store holds a configuration for a queue.\<close>

definition persisted_has :: "engine \<Rightarrow> string \<Rightarrow> bool" where
  "persisted_has en q =
     (case persistenceService en of
        None \<Rightarrow> False
      | Some ps \<Rightarrow> map_of (queues ps) q \<noteq> None)"

text \<open>The broker answers \<open>checkQueue\<close> for the queue with a not-found error.\<close>

definition broker_not_found :: "surroundings \<Rightarrow> string \<Rightarrow> bool" where
  "broker_not_found s q =
     (case check_out s q of Inl err \<Rightarrow> is_not_found err | Inr info \<Rightarrow> False)"

text \<open>The error message says that the queue does not exist (the test made at
  reestablishment).\<close>

definition says_does_not_exist :: "amqp_error \<Rightarrow> bool" where
  "says_does_not_exist error = str_includes (err_message error) ''does not exist''"

text \<open>The broker answers \<open>checkQueue\<close> or \<open>consume\<close> for the queue with an error of the
  given kind.\<close>

definition broker_answers :: "surroundings \<Rightarrow> string \<Rightarrow> (amqp_error \<Rightarrow> bool) \<Rightarrow> bool" where
  "broker_answers s q P =
     ((case check_out s q of Inl err \<Rightarrow> P err | Inr info \<Rightarrow> False) \<or>
      (case consume_out s q of Inl err \<Rightarrow> P err | Inr tag \<Rightarrow> False))"

text \<open>
  The transitions that may take a queue's configuration out of the store: the
  cancellation of its consumer (a \<open>null\<close> delivery to its handler, or the cancelled
  tag reported by the broker client), a stop with reason \<open>manual\<close>, the detection that
  the queue is gone (by the health check when the broker answers not-found; at
  reestablishment for a queue that was being consumed, when the broker answers that it
  does not exist; at restore, also the one of \<open>initialize\<close>, for a queue that is not
  being consumed, when the broker answers not-found), and the control requests clear-configs, cleanup-orphans (when the
  broker answers not-found), the DELETE of the entry, and restore-backup with a backup
  that lacks the queue. The table of active consumers is a \<open>Map\<close>, so its keys are
  distinct; the clause for reestablishment says nothing about a table with a repeated
  key.
\<close>

fun may_remove :: "surroundings \<Rightarrow> engine \<Rightarrow> transition \<Rightarrow> string \<Rightarrow> bool" where
  "may_remove s en Initialize q =
     (\<not> isInitialized en \<and> map_of (activeConsumers en) q = None \<and>
      broker_answers s q is_not_found)"
| "may_remove s en (Deliver h msg) q = (msg = None \<and> h_queueName h = q)"
| "may_remove s en (CheckQueueEmpty q') q = False"
| "may_remove s en (ConsumerCancelledEv tag) q = (find_by_tag tag (activeConsumers en) = Some q)"
| "may_remove s en HealthCheck q = broker_not_found s q"
| "may_remove s en ReconnectionSuccess q =
     (map_of (activeConsumers en) q \<noteq> None \<and>
      (broker_answers s q says_does_not_exist \<or> \<not> distinct (map fst (activeConsumers en))))"
| "may_remove s en RestorePersisted q =
     (map_of (activeConsumers en) q = None \<and> broker_answers s q is_not_found)"
| "may_remove s en (StartConsuming q' wh mi ma bh) q = False"
| "may_remove s en (StopConsuming q' rsn) q = (q' = q \<and> rsn = ''manual'')"
| "may_remove s en (PauseConsuming q') q = False"
| "may_remove s en (ResumeConsuming q') q = False"
| "may_remove s en Shutdown q = False"
| "may_remove s en (ApiStop q') q = False"
| "may_remove s en ApiClearConfigs q = True"
| "may_remove s en ApiCleanupOrphans q = broker_not_found s q"
| "may_remove s en (ApiRemovePersisted q') q = (q' = q)"
| "may_remove s en (ApiRestoreBackup backup) q =
     (case backup of None \<Rightarrow> False | Some qs \<Rightarrow> map_of qs q = None)"


fun exact_gap :: "number \<times> number \<Rightarrow> bool" where
  "exact_gap (Num a, Num b) = (a + 1000 \<le> b)"
| "exact_gap (Num a, Infinity) = True"
| "exact_gap (a, b) = False"


text \<open>Reading a decimal string back (used to show that \<open>show_nat\<close> is injective).\<close>

definition read_nat :: "string \<Rightarrow> nat" where
  "read_nat cs = foldl (\<lambda>a c. 10 * a + ((of_char c :: nat) - 48)) 0 cs"

section \<open>Concrete inputs\<close>

definition closed_rabbit :: rabbit where
  "closed_rabbit =
     \<lparr>connection = None, channel = None, isConnecting = False, shuttingDown = False,
      channel_calls = [], emitted = []\<rparr>"

definition ready_rabbit :: rabbit where
  "ready_rabbit =
     \<lparr>connection = Some \<lparr>closing = False, closed = False\<rparr>,
      channel = Some \<lparr>closing = False, closed = False\<rparr>,
      isConnecting = False, shuttingDown = False, channel_calls = [], emitted = []\<rparr>"

definition unknown_delivery_tag :: amqp_error where
  "unknown_delivery_tag =
     \<lparr>err_code = Some 406, err_message = ''PRECONDITION_FAILED - unknown delivery tag 7''\<rparr>"

definition channel_closed_error :: amqp_error where
  "channel_closed_error = \<lparr>err_code = None, err_message = ''Channel closed''\<rparr>"

definition delivery7 :: delivery where
  "delivery7 = \<lparr>deliveryTag = 7, content = ''[1,2,3]''\<rparr>"

definition new_stats :: processor_stats where
  "new_stats =
     \<lparr>n_processed = 0, n_failed = 0, n_skipped = 0, n_duplicates = 0,
      n_outsideBusinessHours = 0, n_paused = 0\<rparr>"

definition new_webhook_service :: webhook_service where
  "new_webhook_service =
     \<lparr>retryAttempts = webhook_retryAttempts, finishWebhookUrl = None, ws_sent = 0, ws_failed = 0, ws_retries = 0,
      posts = []\<rparr>"

definition processor0 :: processor where
  "processor0 =
     \<lparr>stats = new_stats, deduplicationService = new_dedup, rabbitMQService = ready_rabbit,
      webhookService = new_webhook_service\<rparr>"

definition orders_cfg :: queue_config where
  "orders_cfg =
     \<lparr>queue = ''orders'', webhook = ''https://api.example.com/orders'',
      minInterval = Num 30000, maxInterval = Num 110000,
      businessHours = Some \<lparr>bh_start = 8, bh_end = 21\<rparr>, paused = False\<rparr>"

text \<open>Ten o'clock, every POST answered with the given status, the channel healthy.\<close>

definition env_status :: "nat \<Rightarrow> env" where
  "env_status status =
     \<lparr>now = 1700000000000, hour = 10, url_parses = (\<lambda>s. True), json_parses = (\<lambda>s. True),
      http = (\<lambda>k. Response status), channel_out = None\<rparr>"

definition orders_consumer :: consumer_config where
  "orders_consumer =
     \<lparr>consumerTag = ''amq.ctag-1'', cc_webhook = ''https://api.example.com/orders'',
      cc_minInterval = Num 30000, cc_maxInterval = Num 110000,
      cc_businessHours = Some \<lparr>bh_start = 8, bh_end = 21\<rparr>, cc_paused = False,
      lastMessage = None, createdAt = 1700000000000, cc_messageCount = 0\<rparr>"

definition orders_persisted :: persisted_config where
  "orders_persisted =
     \<lparr>pc_webhook = ''https://api.example.com/orders'', pc_minInterval = Some (Num 30000),
      pc_maxInterval = Some (Num 110000),
      pc_businessHours = Some \<lparr>bh_start = 8, bh_end = 21\<rparr>, savedAt = 1700000000000\<rparr>"

definition engine0 :: engine where
  "engine0 =
     \<lparr>activeConsumers = [(''orders'', orders_consumer)],
      queueIntervals = [(''orders'', Num 45000)],
      isShuttingDown = False, isInitialized = True, messageProcessor = processor0,
      persistenceService = Some \<lparr>isReady = True, queues = [(''orders'', orders_persisted)]\<rparr>,
      engine_events = []\<rparr>"

definition orders_handler :: handler_closure where
  "orders_handler =
     \<lparr>h_queueName = ''orders'', h_webhook = ''https://api.example.com/orders'',
      h_minInterval = Num 30000, h_maxInterval = Num 110000,
      h_businessHours = Some \<lparr>bh_start = 8, bh_end = 21\<rparr>\<rparr>"

definition surroundings0 :: surroundings where
  "surroundings0 =
     \<lparr>call_env = env_status 200, random_interval = Num 60000, listener_throws = None,
      check_out = (\<lambda>q. Inr \<lparr>messageCount = 0, consumerCount = 1\<rparr>),
      consume_out = (\<lambda>q. Inr ''amq.ctag-2''),
      cancel_out = (\<lambda>tag. Inr ()), connect_out = None\<rparr>"

text \<open>The engine after the delivery with tag 7 was processed, and surroundings in which a
  listener of \<open>messageProcessed\<close> throws.\<close>

definition dup_engine :: engine where
  "dup_engine =
     engine0\<lparr>messageProcessor :=
       processor0\<lparr>deduplicationService :=
         markMessageProcessed new_dedup (generateMessageId delivery7)\<rparr>\<rparr>"

definition throwing_surroundings :: surroundings where
  "throwing_surroundings = surroundings0\<lparr>listener_throws := Some TypeError\<rparr>"

text \<open>
  The deliveries with tags 1 to 10001 and the same payload are marked processed in turn,
  then the cleanup sweep runs once.
\<close>

definition tagged :: "nat \<Rightarrow> delivery" where
  "tagged i = \<lparr>deliveryTag = i, content = ''[1,2,3]''\<rparr>"

definition mark_all :: "nat list \<Rightarrow> dedup \<Rightarrow> dedup" where
  "mark_all tags d = fold (\<lambda>i d'. markMessageProcessed d' (generateMessageId (tagged i))) tags d"

definition full_dedup :: dedup where
  "full_dedup = mark_all [1..<10002] new_dedup"

definition swept_dedup :: dedup where
  "swept_dedup = cleanupOldMessages full_dedup"

definition swept_processor :: processor where
  "swept_processor = processor0\<lparr>deduplicationService := swept_dedup\<rparr>"

section \<open>Auxiliary lemmas\<close>

lemma ack_step_snd [simp]: "snd (ack_step e p m) = Inr ()"
  by (simp add: ack_step_def ackMessage_def Let_def split: option.splits)

lemma nack_step_snd [simp]: "snd (nack_step e p m) = Inr ()"
  by (simp add: nack_step_def nackMessage_def Let_def split: option.splits)

lemma ack_step_frame [simp]:
  "stats (fst (ack_step e p m)) = stats p"
  "deduplicationService (fst (ack_step e p m)) = deduplicationService p"
  "webhookService (fst (ack_step e p m)) = webhookService p"
  by (simp_all add: ack_step_def Let_def)

lemma nack_step_frame [simp]:
  "stats (fst (nack_step e p m)) = stats p"
  "deduplicationService (fst (nack_step e p m)) = deduplicationService p"
  "webhookService (fst (nack_step e p m)) = webhookService p"
  by (simp_all add: nack_step_def Let_def)

lemma sendWebhook_client_status:
  assumes "isValidUrl up url" "status < 500"
  shows "sendWebhook up ws url (Response status)
           = (updateStats True (ws\<lparr>posts := posts ws @ [url]\<rparr>), Inr status)"
  using assms by (simp add: sendWebhook_def axios_post_def Let_def)

lemma sendWebhook_retryable:
  assumes "isValidUrl up url" "retryable out"
  shows "\<exists>err. sendWebhook up ws url out
           = (updateStats False (ws\<lparr>posts := posts ws @ [url]\<rparr>), Inl err) \<and>
           \<not> is_client_error err"
  using assms
  by (cases out) (auto simp add: sendWebhook_def axios_post_def Let_def retryable_def
      is_client_error_def)

lemma loop_all_fail:
  assumes "isValidUrl up url"
    and "\<forall>k. a \<le> k \<and> k \<le> N \<longrightarrow> retryable (h k)"
    and "d = N + 1 - a"
    and "a \<le> N + 1"
    and "case lastError of None \<Rightarrow> a \<le> N | Some err \<Rightarrow> \<not> is_client_error err"
  shows "\<exists>err ws'. sendWebhookWithRetry_loop up url h N a lastError ws = (ws', Inl (Some err)) \<and>
           \<not> is_client_error err \<and>
           ws_retries ws' = ws_retries ws + d \<and>
           ws_failed ws' = ws_failed ws + d \<and>
           ws_sent ws' = ws_sent ws \<and>
           retryAttempts ws' = retryAttempts ws \<and>
           posts ws' = posts ws @ replicate d url"
  using assms
proof (induction d arbitrary: a lastError ws)
  case 0
  then have "a = N + 1" by simp
  with 0 show ?case
    by (subst sendWebhookWithRetry_loop.simps) (auto split: option.splits)
next
  case (Suc d)
  then have le: "a \<le> N" by simp
  with Suc.prems have "retryable (h a)" by simp
  with Suc.prems(1) obtain err where
    sw: "sendWebhook up ws url (h a)
           = (updateStats False (ws\<lparr>posts := posts ws @ [url]\<rparr>), Inl err)"
    and nc: "\<not> is_client_error err"
    using sendWebhook_retryable by blast
  define ws2 where "ws2 = (updateStats False (ws\<lparr>posts := posts ws @ [url]\<rparr>))
                \<lparr>ws_retries := ws_retries ws + 1\<rparr>"
  have step: "sendWebhookWithRetry_loop up url h N a lastError ws
                = sendWebhookWithRetry_loop up url h N (a + 1) (Some err) ws2"
    using le sw nc
    by (subst sendWebhookWithRetry_loop.simps) (simp add: Let_def updateStats_def ws2_def)
  have "\<exists>err' ws'. sendWebhookWithRetry_loop up url h N (a + 1) (Some err) ws2
             = (ws', Inl (Some err')) \<and>
         \<not> is_client_error err' \<and>
         ws_retries ws' = ws_retries ws2 + d \<and>
         ws_failed ws' = ws_failed ws2 + d \<and>
         ws_sent ws' = ws_sent ws2 \<and>
         retryAttempts ws' = retryAttempts ws2 \<and>
         posts ws' = posts ws2 @ replicate d url"
  proof (rule Suc.IH)
    show "isValidUrl up url" by (rule Suc.prems(1))
    show "\<forall>k. a + 1 \<le> k \<and> k \<le> N \<longrightarrow> retryable (h k)" using Suc.prems(2) by simp
    show "d = N + 1 - (a + 1)" using Suc.prems(3) by simp
    show "a + 1 \<le> N + 1" using le by simp
    show "case Some err of None \<Rightarrow> a + 1 \<le> N | Some err \<Rightarrow> \<not> is_client_error err"
      using nc by simp
  qed
  then obtain err' ws' where
    r: "sendWebhookWithRetry_loop up url h N (a + 1) (Some err) ws2 = (ws', Inl (Some err'))"
    and p: "\<not> is_client_error err'"
      "ws_retries ws' = ws_retries ws2 + d"
      "ws_failed ws' = ws_failed ws2 + d"
      "ws_sent ws' = ws_sent ws2"
      "retryAttempts ws' = retryAttempts ws2"
      "posts ws' = posts ws2 @ replicate d url"
    by blast
  show ?case
    using step r p
    by (simp add: updateStats_def ws2_def replicate_app_Cons_same)
qed


lemma sendToWebhook_below_500:
  assumes "isValidUrl (url_parses e) url" "1 \<le> retryAttempts ws"
    and "http e 1 = Response status" "status < 500"
  shows "sendToWebhook e ws url
           = (updateStats True (ws\<lparr>posts := posts ws @ [url]\<rparr>), WSuccess status)"
  using assms
  by (simp add: sendToWebhook_def sendWebhookWithRetry_def sendWebhookWithRetry_loop.simps
      sendWebhook_client_status Let_def)

lemma sendToWebhook_all_fail:
  assumes "isValidUrl (url_parses e) url" "1 \<le> retryAttempts ws"
    and "\<forall>k. 1 \<le> k \<and> k \<le> retryAttempts ws \<longrightarrow> retryable (http e k)"
  shows "\<exists>err ws'. sendToWebhook e ws url = (ws', WFailure (Some err)) \<and>
           \<not> is_client_error err \<and>
           ws_retries ws' = ws_retries ws + retryAttempts ws \<and>
           ws_failed ws' = ws_failed ws + retryAttempts ws \<and>
           ws_sent ws' = ws_sent ws \<and>
           posts ws' = posts ws @ replicate (retryAttempts ws) url"
proof -
  have "\<exists>err ws'. sendWebhookWithRetry_loop (url_parses e) url (http e) (retryAttempts ws) 1
            None ws = (ws', Inl (Some err)) \<and>
           \<not> is_client_error err \<and>
           ws_retries ws' = ws_retries ws + retryAttempts ws \<and>
           ws_failed ws' = ws_failed ws + retryAttempts ws \<and>
           ws_sent ws' = ws_sent ws \<and>
           retryAttempts ws' = retryAttempts ws \<and>
           posts ws' = posts ws @ replicate (retryAttempts ws) url"
    by (rule loop_all_fail) (use assms in simp_all)
  then show ?thesis
    by (auto simp add: sendToWebhook_def sendWebhookWithRetry_def Let_def)
qed

lemma processMessage_below_500:
  assumes "processable e p m cfg" "1 \<le> retryAttempts (webhookService p)"
    and "http e 1 = Response status" "status < 500"
  shows "snd (processMessage e p (Some m) cfg)
           = Inr \<lparr>action = Ack, reason = Success, messageContent = Some (content m)\<rparr>"
    and "n_processed (stats (fst (processMessage e p (Some m) cfg))) = n_processed (stats p) + 1"
    and "n_failed (stats (fst (processMessage e p (Some m) cfg))) = n_failed (stats p)"
    and "ws_sent (webhookService (fst (processMessage e p (Some m) cfg)))
           = ws_sent (webhookService p) + 1"
  using assms
  by (simp_all add: processMessage_def try_block_def processable_def Let_def
      sendToWebhook_below_500 finally_block_def markProcessed_step_def updateStats_def)

lemma processMessage_all_fail:
  assumes "processable e p m cfg" "1 \<le> retryAttempts (webhookService p)"
    and "\<forall>k. 1 \<le> k \<and> k \<le> retryAttempts (webhookService p) \<longrightarrow> retryable (http e k)"
  shows "snd (processMessage e p (Some m) cfg)
           = Inr \<lparr>action = Nack, reason = Webhook_retry, messageContent = None\<rparr> \<and>
         n_failed (stats (fst (processMessage e p (Some m) cfg))) = n_failed (stats p) + 1 \<and>
         n_processed (stats (fst (processMessage e p (Some m) cfg))) = n_processed (stats p) \<and>
         ws_retries (webhookService (fst (processMessage e p (Some m) cfg)))
           = ws_retries (webhookService p) + retryAttempts (webhookService p) \<and>
         posts (webhookService (fst (processMessage e p (Some m) cfg)))
           = posts (webhookService p) @ replicate (retryAttempts (webhookService p)) (webhook cfg)"
proof -
  let ?d = "markMessageProcessing (deduplicationService p) (generateMessageId m)
              \<lparr>startTime = now e, pi_queue = queue cfg,
               pi_deliveryTag = deliveryTag m, pi_webhook = webhook cfg\<rparr>"
  from assms obtain err ws' where
    w: "sendToWebhook e (webhookService p) (webhook cfg) = (ws', WFailure (Some err))"
    and nc: "\<not> is_client_error err"
    and r: "ws_retries ws' = ws_retries (webhookService p) + retryAttempts (webhookService p)"
    and po: "posts ws' = posts (webhookService p)
                @ replicate (retryAttempts (webhookService p)) (webhook cfg)"
    using sendToWebhook_all_fail [of e "webhook cfg" "webhookService p"]
    by (auto simp add: processable_def)
  show ?thesis
    using assms(1) w nc r po
    by (simp add: processMessage_def try_block_def processable_def Let_def
        finally_block_def shouldRetryMessage_def bump_failed_def)
qed


lemma show_nat_nonempty: "show_nat n \<noteq> []"
  by (subst show_nat.simps) simp

lemma generateMessageId_nonempty [simp]: "generateMessageId m \<noteq> []"
  by (simp add: generateMessageId_def Let_def show_nat_nonempty)

lemma ack_step_calls:
  "channel_calls (rabbitMQService (fst (ack_step e p m)))
     = channel_calls (rabbitMQService p)
       @ (if isChannelReady (rabbitMQService p) then [BasicAck (deliveryTag m)] else [])"
  by (simp add: ack_step_def ackMessage_def Let_def split: option.splits)

lemma nack_step_calls:
  "channel_calls (rabbitMQService (fst (nack_step e p m)))
     = channel_calls (rabbitMQService p)
       @ (if isChannelReady (rabbitMQService p) then [BasicNack (deliveryTag m) False True] else [])"
  by (simp add: nack_step_def nackMessage_def Let_def split: option.splits)

lemma try_block_result:
  "(\<exists>d. snd (try_block e p m mid cfg) = Inr d \<and>
        channel_calls (rabbitMQService (fst (try_block e p m mid cfg)))
          = channel_calls (rabbitMQService p)
            @ (if isChannelReady (rabbitMQService p) then broker_op_of (action d) (deliveryTag m)
               else [])) \<or>
   (snd (try_block e p m mid cfg) = Inl TypeError \<and>
      rabbitMQService (fst (try_block e p m mid cfg)) = rabbitMQService p)"
  by (simp add: try_block_def Let_def ack_step_calls nack_step_calls shouldRetryMessage_def
      bump_failed_def markProcessed_step_def
      split: sum.splits webhook_result.splits option.splits)


lemma catch_block_result:
  "snd (catch_block e p m)
     = Inr \<lparr>action = Nack, reason = Unexpected_error, messageContent = None\<rparr> \<and>
   channel_calls (rabbitMQService (fst (catch_block e p m)))
     = channel_calls (rabbitMQService p)
       @ (if isChannelReady (rabbitMQService p) then [BasicNack (deliveryTag m) False True] else [])"
  by (simp add: catch_block_def Let_def nack_step_calls bump_failed_def)

lemma finally_block_frame [simp]:
  "rabbitMQService (finally_block mid p) = rabbitMQService p"
  "stats (finally_block mid p) = stats p"
  "webhookService (finally_block mid p) = webhookService p"
  "processedMessages (deduplicationService (finally_block mid p))
     = processedMessages (deduplicationService p)"
  by (simp_all add: finally_block_def removeMessageFromProcessing_def)

lemma finally_block_removes:
  "mid \<noteq> [] \<Longrightarrow> processingMessages (deduplicationService (finally_block mid p)) mid = None"
  by (simp add: finally_block_def removeMessageFromProcessing_def)

lemma shouldAttemptReconnection_ready:
  assumes "isChannelReady r"
  shows "shouldAttemptReconnection rc r t = (rc, False)"
    and "scheduleReconnection rc r t = rc"
    and "attemptReconnection rc r t out = (rc, r)"
  using assms
  by (simp_all add: shouldAttemptReconnection_def scheduleReconnection_def
      scheduleReconnection_with_def attemptReconnection_def attemptReconnection_with_def)

lemma of_char_digit_char: "d < 10 \<Longrightarrow> (of_char (digit_char d) :: nat) = 48 + d"
  by (simp add: digit_char_def)

lemma read_nat_show_nat: "read_nat (show_nat n) = n"
proof (induction n rule: show_nat.induct)
  case (1 n)
  show ?case
  proof (cases "n < 10")
    case True
    then show ?thesis
      by (subst show_nat.simps) (simp add: read_nat_def of_char_digit_char)
  next
    case False
    with 1 have ih: "read_nat (show_nat (n div 10)) = n div 10" by simp
    have "read_nat (show_nat n) = 10 * read_nat (show_nat (n div 10)) + n mod 10"
      using False
      by (subst show_nat.simps) (simp add: read_nat_def of_char_digit_char)
    with ih show ?thesis by simp
  qed
qed

lemma show_nat_inj: "show_nat a = show_nat b \<Longrightarrow> a = b"
  by (metis read_nat_show_nat)

lemma show_nat_no_underscore: "CHR ''_'' \<notin> set (show_nat n)"
proof (induction n rule: show_nat.induct)
  case (1 n)
  have dc: "\<And>d. d < 10 \<Longrightarrow> digit_char d \<noteq> CHR ''_''"
  proof
    fix d :: nat assume d: "d < 10" and e: "digit_char d = CHR ''_''"
    from of_char_digit_char [OF d] e have "(of_char (CHR ''_'') :: nat) = 48 + d" by simp
    with d show False by simp
  qed
  show ?case
  proof (cases "n < 10")
    case True
    then show ?thesis using dc [of n] by (subst show_nat.simps) auto
  next
    case False
    with 1 have "CHR ''_'' \<notin> set (show_nat (n div 10))" by simp
    then show ?thesis using False dc [of "n mod 10"]
      by (subst show_nat.simps) auto
  qed
qed

lemma generateMessageId_tag_inj:
  assumes "generateMessageId m = generateMessageId m'"
  shows "deliveryTag m = deliveryTag m'"
proof -
  let ?h = "take messageIdTruncateLength (base64 (content m))"
  let ?h' = "take messageIdTruncateLength (base64 (content m'))"
  from assms have eq: "show_nat (deliveryTag m) @ CHR ''_'' # ?h
                     = show_nat (deliveryTag m') @ CHR ''_'' # ?h'"
    by (simp add: generateMessageId_def Let_def)
  have "takeWhile (\<lambda>c. c \<noteq> CHR ''_'') (show_nat (deliveryTag m) @ CHR ''_'' # ?h)
          = show_nat (deliveryTag m)"
    using show_nat_no_underscore [of "deliveryTag m"]
    by (subst takeWhile_append2) auto
  moreover have "takeWhile (\<lambda>c. c \<noteq> CHR ''_'') (show_nat (deliveryTag m') @ CHR ''_'' # ?h')
          = show_nat (deliveryTag m')"
    using show_nat_no_underscore [of "deliveryTag m'"]
    by (subst takeWhile_append2) auto
  ultimately have "show_nat (deliveryTag m) = show_nat (deliveryTag m')"
    using eq by simp
  then show ?thesis by (rule show_nat_inj)
qed

lemma tagged_inj: "generateMessageId (tagged i) = generateMessageId (tagged j) \<Longrightarrow> i = j"
  using generateMessageId_tag_inj [of "tagged i" "tagged j"] by (simp add: tagged_def)

lemma mark_all_processed:
  assumes "distinct tags"
    and "\<forall>i \<in> set tags. generateMessageId (tagged i) \<notin> set (processedMessages d)"
  shows "processedMessages (mark_all tags d)
           = processedMessages d @ map (\<lambda>i. generateMessageId (tagged i)) tags \<and>
         maxProcessedMessages (mark_all tags d) = maxProcessedMessages d"
  using assms
proof (induction tags arbitrary: d)
  case Nil
  then show ?case by (simp add: mark_all_def)
next
  case (Cons i tags)
  let ?d = "markMessageProcessed d (generateMessageId (tagged i))"
  have d1: "processedMessages ?d = processedMessages d @ [generateMessageId (tagged i)]"
    and d2: "maxProcessedMessages ?d = maxProcessedMessages d"
    using Cons.prems(2) by (simp_all add: markMessageProcessed_def)
  have "\<forall>j \<in> set tags. generateMessageId (tagged j) \<notin> set (processedMessages ?d)"
  proof
    fix j assume j: "j \<in> set tags"
    with Cons.prems(1) have "j \<noteq> i" by auto
    then have "generateMessageId (tagged j) \<noteq> generateMessageId (tagged i)"
      using tagged_inj by blast
    with Cons.prems(2) j d1 show "generateMessageId (tagged j) \<notin> set (processedMessages ?d)"
      by simp
  qed
  with Cons.IH [of ?d] Cons.prems(1)
  have "processedMessages (mark_all tags ?d)
           = processedMessages ?d @ map (\<lambda>i. generateMessageId (tagged i)) tags \<and>
         maxProcessedMessages (mark_all tags ?d) = maxProcessedMessages ?d"
    by simp
  moreover have "mark_all (i # tags) d = mark_all tags ?d"
    by (simp add: mark_all_def)
  ultimately show ?case using d1 d2 by simp
qed

lemma full_dedup_processed:
  "processedMessages full_dedup = map (\<lambda>i. generateMessageId (tagged i)) [1..<10002]"
  "maxProcessedMessages full_dedup = 10000"
  using mark_all_processed [of "[1..<10002]" new_dedup]
  by (simp_all add: full_dedup_def new_dedup_def maxProcessedMessages_cfg_def)

lemma swept_dedup_processed:
  "processedMessages swept_dedup = map (\<lambda>i. generateMessageId (tagged i)) [2..<10002]"
  by (simp add: swept_dedup_def cleanupOldMessages_def full_dedup_processed Let_def
      drop_map numeral_2_eq_2 del: upt_rec_numeral)

lemma swept_forgot_first:
  "\<not> isMessageProcessed swept_dedup (generateMessageId (tagged 1))"
proof
  assume "isMessageProcessed swept_dedup (generateMessageId (tagged 1))"
  then obtain i where "i \<in> set [2..<10002]"
    and "generateMessageId (tagged 1) = generateMessageId (tagged i)"
    by (auto simp add: isMessageProcessed_def swept_dedup_processed simp del: upt_rec_numeral)
  then show False using tagged_inj [of 1 i] by (simp del: upt_rec_numeral)
qed

lemma full_remembers_first:
  "isMessageProcessed full_dedup (generateMessageId (tagged 1))"
  by (simp add: isMessageProcessed_def full_dedup_processed)

lemma processMessage_duplicate:
  assumes "isMessageProcessed (deduplicationService p) (generateMessageId m)"
  shows "processMessage e p (Some m) cfg
           = (finally_block (generateMessageId m)
                (p\<lparr>stats := (stats p)\<lparr>n_duplicates := n_duplicates (stats p) + 1,
                                         n_skipped := n_skipped (stats p) + 1\<rparr>\<rparr>),
              Inr \<lparr>action = Skip, reason = Duplicate, messageContent = None\<rparr>)"
  using assms by (simp add: processMessage_def try_block_def Let_def)

lemma markMessageProcessed_isProcessed:
  "messageId \<noteq> [] \<Longrightarrow> isMessageProcessed (markMessageProcessed d messageId) messageId"
  by (simp add: isMessageProcessed_def markMessageProcessed_def)

lemma markMessageProcessed_keeps:
  "isMessageProcessed d f \<Longrightarrow> isMessageProcessed (markMessageProcessed d g) f"
  by (simp add: isMessageProcessed_def markMessageProcessed_def split: if_splits)

lemma finally_block_processed [simp]:
  "isMessageProcessed (deduplicationService (finally_block mid p)) f
     = isMessageProcessed (deduplicationService p) f"
  by (simp add: finally_block_def removeMessageFromProcessing_def isMessageProcessed_def)

lemma markMessageProcessing_processed [simp]:
  "isMessageProcessed (markMessageProcessing d mid info) f = isMessageProcessed d f"
  by (simp add: isMessageProcessed_def markMessageProcessing_def)

lemma bump_failed_dedup [simp]:
  "deduplicationService (bump_failed p) = deduplicationService p"
  by (simp add: bump_failed_def)

lemma markProcessed_step_keeps:
  "isMessageProcessed (deduplicationService p) f
     \<Longrightarrow> isMessageProcessed (deduplicationService (markProcessed_step mid p)) f"
  by (simp add: markProcessed_step_def markMessageProcessed_keeps)

lemma try_block_keeps:
  assumes "isMessageProcessed (deduplicationService p) f"
  shows "isMessageProcessed (deduplicationService (fst (try_block e p m mid cfg))) f"
  using assms
  by (simp add: try_block_def Let_def markProcessed_step_keeps
      split: sum.splits webhook_result.splits)

lemma processMessage_keeps:
  assumes "isMessageProcessed (deduplicationService p) f"
  shows "isMessageProcessed (deduplicationService (fst (processMessage e p msg cfg))) f"
proof (cases msg)
  case None
  with assms show ?thesis by (simp add: processMessage_def)
next
  case (Some m)
  from try_block_keeps [OF assms, of e m "generateMessageId m" cfg]
  show ?thesis using Some
    by (simp add: processMessage_def Let_def catch_block_def bump_failed_def
        split: sum.splits)
qed

lemma persisted_frame [simp]:
  "persisted_has (set_rabbit r en) q = persisted_has en q"
  "persisted_has (emitE ev en) q = persisted_has en q"
  "persisted_has (notify_finish s en) q = persisted_has en q"
  "persisted_has (en\<lparr>activeConsumers := ac\<rparr>) q = persisted_has en q"
  "persisted_has (en\<lparr>queueIntervals := qi\<rparr>) q = persisted_has en q"
  "persisted_has (en\<lparr>messageProcessor := mp\<rparr>) q = persisted_has en q"
  "persisted_has (en\<lparr>isShuttingDown := b\<rparr>) q = persisted_has en q"
  by (simp_all add: persisted_has_def set_rabbit_def emitE_def notify_finish_def)

lemma active_frame [simp]:
  "activeConsumers (set_rabbit r en) = activeConsumers en"
  "activeConsumers (emitE ev en) = activeConsumers en"
  "activeConsumers (notify_finish s en) = activeConsumers en"
  "activeConsumers (remove_persisted q en) = activeConsumers en"
  "activeConsumers (save_persisted s q c en) = activeConsumers en"
  by (simp_all add: set_rabbit_def emitE_def notify_finish_def remove_persisted_def
      save_persisted_def split: option.splits)

lemma remove_persisted_other:
  "q \<noteq> q' \<Longrightarrow> persisted_has (remove_persisted q' en) q = persisted_has en q"
  by (auto simp add: persisted_has_def remove_persisted_def removeQueueConfig_def
      AList.delete_conv split: option.splits)

lemma save_persisted_keeps:
  "persisted_has en q \<Longrightarrow> persisted_has (save_persisted s q' c en) q"
  by (auto simp add: persisted_has_def save_persisted_def saveQueueConfig_def
      AList.update_conv split: option.splits)

lemma engine_nack_persisted [simp]:
  "persisted_has (fst (engine_nack s en m)) q = persisted_has en q"
  by (simp add: engine_nack_def Let_def)

lemma messageHandler_delivery_keeps:
  "persisted_has (fst (messageHandler s h en (Some m))) q = persisted_has en q"
  by (simp add: messageHandler_def Let_def split: option.splits sum.splits)

lemma messageHandler_null_other:
  "h_queueName h \<noteq> q \<Longrightarrow> persisted_has (fst (messageHandler s h en None)) q = persisted_has en q"
  by (simp add: messageHandler_def Let_def remove_persisted_other)

lemma startConsuming_keeps:
  "persisted_has en q \<Longrightarrow> persisted_has (fst (startConsuming s en q' wh mi ma bh)) q"
  by (simp add: startConsuming_def Let_def save_persisted_keeps split: sum.splits)

lemma stopConsuming_keeps:
  "\<not> (q' = q \<and> rsn = ''manual'')
     \<Longrightarrow> persisted_has (fst (stopConsuming s en q' rsn)) q = persisted_has en q"
  by (auto simp add: stopConsuming_def Let_def remove_persisted_other
      split: option.splits sum.splits)

lemma pause_resume_keeps:
  "persisted_has (fst (pauseConsuming en q')) q = persisted_has en q"
  "persisted_has (fst (resumeConsuming en q')) q = persisted_has en q"
  by (simp_all add: pauseConsuming_def resumeConsuming_def split: option.splits)

lemma handleExternallyDeletedQueue_other:
  "q \<noteq> q' \<Longrightarrow> persisted_has (handleExternallyDeletedQueue s en q') q = persisted_has en q"
  by (simp add: handleExternallyDeletedQueue_def Let_def remove_persisted_other)

lemma handleConsumerCancelled_other:
  "find_by_tag tag (activeConsumers en) \<noteq> Some q
     \<Longrightarrow> persisted_has (handleConsumerCancelled s en tag) q = persisted_has en q"
  by (auto simp add: handleConsumerCancelled_def Let_def remove_persisted_other
      split: option.splits)


lemma channelNotReady_found: "\<not> is_not_found channelNotReady"
  by (simp add: is_not_found_def channelNotReady_def toLowerCase_def lower_char_def Let_def)

lemma checkQueue_error:
  "snd (checkQueue r q out) = Inl err \<Longrightarrow> err = channelNotReady \<or> out = Inl err"
  by (auto simp add: checkQueue_def safeChannelOperation_def Let_def
      split: if_splits sum.splits)

lemma checkQueue_not_found:
  assumes "snd (checkQueue r q (check_out s q)) = Inl err" "is_not_found err"
  shows "broker_not_found s q"
proof -
  from checkQueue_error [OF assms(1)] assms(2) channelNotReady_found
  have "check_out s q = Inl err" by auto
  with assms(2) show ?thesis by (simp add: broker_not_found_def)
qed

lemma health_loop_keeps:
  assumes "persisted_has en q" "\<not> broker_not_found s q"
  shows "persisted_has (health_loop s qs en) q"
  using assms
proof (induction qs arbitrary: en)
  case Nil
  then show ?case by simp
next
  case (Cons queueName rest)
  let ?c = "checkQueue (rabbit_of en) queueName (check_out s queueName)"
  let ?en1 = "set_rabbit (fst ?c) en"
  have p1: "persisted_has ?en1 q" using Cons.prems(1) by simp
  show ?case
  proof (cases "snd ?c")
    case (Inr info)
    with Cons.IH [OF p1 Cons.prems(2)] show ?thesis by (simp add: Let_def)
  next
    case (Inl error)
    show ?thesis
    proof (cases "is_not_found error")
      case True
      with Inl checkQueue_not_found have "broker_not_found s queueName" by blast
      with Cons.prems(2) have "q \<noteq> queueName" by auto
      then have "persisted_has (handleExternallyDeletedQueue s ?en1 queueName) q"
        using p1 by (simp add: handleExternallyDeletedQueue_other)
      from Cons.IH [OF this Cons.prems(2)] Inl True show ?thesis by (simp add: Let_def)
    next
      case False
      with Inl Cons.IH [OF p1 Cons.prems(2)] p1 show ?thesis by (simp add: Let_def)
    qed
  qed
qed

lemma healthCheckTick_keeps:
  assumes "persisted_has en q" "\<not> broker_not_found s q"
  shows "persisted_has (healthCheckTick s en) q"
  using assms health_loop_keeps [OF assms]
  by (simp add: healthCheckTick_def Let_def)

lemma orphans_loop_keeps:
  assumes "persisted_has en q" "\<not> broker_not_found s q"
  shows "persisted_has (orphans_loop s qs en) q"
  using assms
proof (induction qs arbitrary: en)
  case Nil
  then show ?case by simp
next
  case (Cons queueName rest)
  let ?c = "checkQueue (rabbit_of en) queueName (check_out s queueName)"
  let ?en1 = "set_rabbit (fst ?c) en"
  have p1: "persisted_has ?en1 q" using Cons.prems(1) by simp
  show ?case
  proof (cases "snd ?c")
    case (Inr info)
    with Cons.IH [OF p1 Cons.prems(2)] show ?thesis by (simp add: Let_def)
  next
    case (Inl error)
    show ?thesis
    proof (cases "is_not_found error")
      case True
      with Inl checkQueue_not_found have "broker_not_found s queueName" by blast
      with Cons.prems(2) have "q \<noteq> queueName" by auto
      then have "persisted_has (remove_persisted queueName ?en1) q"
        using p1 by (simp add: remove_persisted_other)
      from Cons.IH [OF this Cons.prems(2)] Inl True show ?thesis by (simp add: Let_def)
    next
      case False
      with Inl Cons.IH [OF p1 Cons.prems(2)] show ?thesis by (simp add: Let_def)
    qed
  qed
qed

lemma api_cleanupOrphanedConfigs_keeps:
  assumes "persisted_has en q" "\<not> broker_not_found s q"
  shows "persisted_has (api_cleanupOrphanedConfigs s en) q"
  using assms orphans_loop_keeps [OF assms]
  by (simp add: api_cleanupOrphanedConfigs_def split: option.splits sum.splits)


lemma reestablish_failed_other:
  "q \<noteq> q' \<Longrightarrow> persisted_has (reestablish_failed q' err en) q = persisted_has en q"
  by (simp add: reestablish_failed_def remove_persisted_other)

lemma reestablish_loop_keeps:
  assumes "persisted_has en q" "q \<notin> fst ` set consumers"
  shows "persisted_has (fst (reestablish_loop s consumers (en, a, b))) q"
  using assms
proof (induction consumers arbitrary: en a b)
  case Nil
  then show ?case by simp
next
  case (Cons entry rest)
  obtain queueName config where entry: "entry = (queueName, config)" by (cases entry)
  with Cons.prems(2) have ne: "q \<noteq> queueName" and rest: "q \<notin> fst ` set rest" by auto
  let ?c = "checkQueue (rabbit_of en) queueName (check_out s queueName)"
  let ?en1 = "set_rabbit (fst ?c) en"
  let ?st = "startConsuming s ?en1 queueName (cc_webhook config)
               (Some (cc_minInterval config)) (Some (cc_maxInterval config))
               (cc_businessHours config)"
  have p1: "persisted_has ?en1 q" using Cons.prems(1) by simp
  have p2: "persisted_has (fst ?st) q" using p1 by (rule startConsuming_keeps)
  show ?case
  proof (cases "snd ?c")
    case (Inl error)
    have "persisted_has (reestablish_failed queueName error ?en1) q"
      using p1 ne by (simp add: reestablish_failed_other)
    from Cons.IH [OF this rest] Inl entry show ?thesis by (simp add: Let_def)
  next
    case (Inr info)
    show ?thesis
    proof (cases "snd ?st")
      case (Inl error)
      have "persisted_has (reestablish_failed queueName error (fst ?st)) q"
        using p2 ne by (simp add: reestablish_failed_other)
      from Cons.IH [OF this rest] Inl Inr entry show ?thesis by (simp add: Let_def)
    next
      case (Inr started)
      show ?thesis
      proof (cases "map_of (activeConsumers (fst ?st)) queueName")
        case None
        from Cons.IH [OF p2 rest] None Inr \<open>snd ?c = Inr info\<close> entry
        show ?thesis by (simp add: Let_def)
      next
        case (Some newConfig)
        let ?en3 = "(fst ?st)\<lparr>activeConsumers :=
                       AList.update queueName
                         (newConfig\<lparr>cc_paused := cc_paused config,
                            lastMessage := lastMessage config,
                            cc_messageCount := cc_messageCount config\<rparr>)
                         (activeConsumers (fst ?st))\<rparr>"
        have "persisted_has ?en3 q" using p2 by simp
        from Cons.IH [OF this rest] Some Inr \<open>snd ?c = Inr info\<close> entry
        show ?thesis by (simp add: Let_def)
      qed
    qed
  qed
qed

lemma handleReconnectionSuccess_keeps:
  assumes "persisted_has en q" "map_of (activeConsumers en) q = None"
  shows "persisted_has (handleReconnectionSuccess s en) q"
proof -
  from assms(2) have "q \<notin> fst ` set (activeConsumers en)"
    by (simp add: map_of_eq_None_iff)
  moreover have "persisted_has (en\<lparr>activeConsumers := [], queueIntervals := []\<rparr>) q"
    using assms(1) by simp
  ultimately show ?thesis
    using reestablish_loop_keeps [of "en\<lparr>activeConsumers := [], queueIntervals := []\<rparr>" q
        "activeConsumers en" s 0 0]
    by (simp add: handleReconnectionSuccess_def Let_def)
qed

lemma startConsuming_active_grows:
  "map_of (activeConsumers en) x \<noteq> None
     \<Longrightarrow> map_of (activeConsumers (fst (startConsuming s en q' wh mi ma bh))) x \<noteq> None"
  by (auto simp add: startConsuming_def Let_def AList.update_conv split: sum.splits)

lemma restore_loop_keeps:
  assumes "persisted_has en q"
  shows "persisted_has (fst (restore_loop s cfgs (en, a, b, c, tr))) q"
  using assms
proof (induction cfgs arbitrary: en a b c tr)
  case Nil
  then show ?case by simp
next
  case (Cons entry rest)
  obtain queueName config where entry: "entry = (queueName, config)" by (cases entry)
  let ?st = "startConsuming s en queueName (pc_webhook config) (pc_minInterval config)
               (pc_maxInterval config) (pc_businessHours config)"
  have p: "persisted_has (fst ?st) q" using Cons.prems by (rule startConsuming_keeps)
  show ?case
    using entry Cons.IH [OF Cons.prems] Cons.IH [OF p]
    by (simp add: Let_def split: sum.splits)
qed

lemma fold_remove_persisted_keeps:
  "persisted_has en q \<Longrightarrow> q \<notin> set tr \<Longrightarrow> persisted_has (fold remove_persisted tr en) q"
  by (induction tr arbitrary: en) (auto simp add: remove_persisted_other)

lemma shutdown_loop_keeps:
  "persisted_has (shutdown_loop s qs en) q = persisted_has en q"
proof (induction qs arbitrary: en)
  case Nil
  then show ?case by simp
next
  case (Cons queueName rest)
  have "persisted_has (fst (stopConsuming s en queueName ''shutdown'')) q = persisted_has en q"
    by (rule stopConsuming_keeps) simp
  with Cons.IH show ?case
    by (simp add: Let_def split: sum.splits option.splits)
qed

lemma shutdown_keeps: "persisted_has (shutdown s en) q = persisted_has en q"
  by (simp add: shutdown_def Let_def shutdown_loop_keeps)

lemma api_stopConsuming_keeps: "persisted_has (api_stopConsuming s en q') q = persisted_has en q"
proof -
  have "persisted_has (fst (stopConsuming s en q' ''api_request'')) q = persisted_has en q"
    by (rule stopConsuming_keeps) simp
  then show ?thesis by (simp add: api_stopConsuming_def)
qed

lemma api_removePersistedQueue_other:
  "q \<noteq> q' \<Longrightarrow> persisted_has (api_removePersistedQueue en q') q = persisted_has en q"
  by (auto simp add: api_removePersistedQueue_def persisted_has_def removeQueueConfig_def
      loadQueueConfig_def loadQueueConfigs_def AList.delete_conv
      split: option.splits sum.splits)

lemma api_restoreFromBackup_keeps:
  "persisted_has en q \<Longrightarrow> \<not> (case backup of None \<Rightarrow> False | Some qs \<Rightarrow> map_of qs q = None)
     \<Longrightarrow> persisted_has (api_restoreFromBackup en backup) q"
  by (auto simp add: api_restoreFromBackup_def persisted_has_def restoreFromBackup_def
      split: option.splits)


lemma notInitializedError_found:
  "\<not> is_not_found notInitializedError"
  "\<not> says_does_not_exist notInitializedError"
  by code_simp+

lemma channelNotReady_exists: "\<not> says_does_not_exist channelNotReady"
  by code_simp

lemma invalid_config_found:
  "\<not> is_not_found (invalidConfigurationError
       ((if b1 then [''Invalid queue name''] else []) @
        (if b2 then [''Invalid webhook URL''] else []) @
        (if b3 then [''Minimum interval must be less than maximum interval''] else []) @
        (if b4 then [''Invalid business hours configuration''] else [])))"
  by (cases b1; cases b2; cases b3; cases b4; simp only: if_True if_False; code_simp)

lemma invalid_config_exists:
  "\<not> says_does_not_exist (invalidConfigurationError
       ((if b1 then [''Invalid queue name''] else []) @
        (if b2 then [''Invalid webhook URL''] else []) @
        (if b3 then [''Minimum interval must be less than maximum interval''] else []) @
        (if b4 then [''Invalid business hours configuration''] else [])))"
  by (cases b1; cases b2; cases b3; cases b4; simp only: if_True if_False; code_simp)

lemma safeChannelOperation_error:
  "snd (safeChannelOperation r call out) = Inl err \<Longrightarrow> err = channelNotReady \<or> out = Inl err"
  by (auto simp add: safeChannelOperation_def Let_def split: if_splits sum.splits)

lemma validation_errors_shape:
  "\<exists>b1 b2 b3 b4. errors (validateQueueConfig up c) =
       (if b1 then [''Invalid queue name''] else []) @
       (if b2 then [''Invalid webhook URL''] else []) @
       (if b3 then [''Minimum interval must be less than maximum interval''] else []) @
       (if b4 then [''Invalid business hours configuration''] else [])"
proof -
  obtain mn mx where sm: "sanitizeIntervals (qc_minInterval c) (qc_maxInterval c) = (mn, mx)"
    by (cases "sanitizeIntervals (qc_minInterval c) (qc_maxInterval c)")
  let ?b4 = "case qc_businessHours c of None \<Rightarrow> False
             | Some bh \<Rightarrow> bh_start bh < 0 \<or> bh_start bh > 23 \<or> bh_end bh < 0 \<or> bh_end bh > 23
                 \<or> bh_start bh \<ge> bh_end bh"
  have "errors (validateQueueConfig up c) =
       (if \<not> isValidQueueName (qc_queue c) then [''Invalid queue name''] else []) @
       (if \<not> isValidUrl up (qc_webhook c) then [''Invalid webhook URL''] else []) @
       (if js_ge mn mx then [''Minimum interval must be less than maximum interval''] else []) @
       (if ?b4 then [''Invalid business hours configuration''] else [])"
    using sm by (simp add: validateQueueConfig_def Let_def split: option.splits)
  then show ?thesis by blast
qed

lemma invalidConfigurationError_found:
  "\<not> is_not_found (invalidConfigurationError (errors (validateQueueConfig up c)))"
  "\<not> says_does_not_exist (invalidConfigurationError (errors (validateQueueConfig up c)))"
proof -
  from validation_errors_shape [of up c] obtain b1 b2 b3 b4 where
    "errors (validateQueueConfig up c) =
       (if b1 then [''Invalid queue name''] else []) @
       (if b2 then [''Invalid webhook URL''] else []) @
       (if b3 then [''Minimum interval must be less than maximum interval''] else []) @
       (if b4 then [''Invalid business hours configuration''] else [])"
    by blast
  then show "\<not> is_not_found (invalidConfigurationError (errors (validateQueueConfig up c)))"
    and "\<not> says_does_not_exist (invalidConfigurationError (errors (validateQueueConfig up c)))"
    using invalid_config_found [of b1 b2 b3 b4] invalid_config_exists [of b1 b2 b3 b4]
    by simp_all
qed

lemma startConsuming_error:
  assumes "snd (startConsuming s en q wh mi ma bh) = Inl err"
    and "map_of (activeConsumers en) q = None"
    and "P err"
    and "\<not> P channelNotReady"
    and "\<not> P notInitializedError"
    and "\<And>up c. \<not> P (invalidConfigurationError (errors (validateQueueConfig up c)))"
  shows "broker_answers s q P"
proof -
  let ?v = "validateQueueConfig (url_parses (call_env s))
              \<lparr>qc_queue = q, qc_webhook = wh, qc_minInterval = mi,
               qc_maxInterval = ma, qc_businessHours = bh\<rparr>"
  let ?c = "checkQueue (rabbit_of en) q (check_out s q)"
  let ?k = "createConsumer (fst ?c) q (consume_out s q)"
  have init: "isInitialized en"
  proof (rule ccontr)
    assume "\<not> isInitialized en"
    with assms(1) have "err = notInitializedError" by (simp add: startConsuming_def)
    with assms(3,5) show False by simp
  qed
  have valid: "isValid ?v"
  proof (rule ccontr)
    assume "\<not> isValid ?v"
    with assms(1) init have "err = invalidConfigurationError (errors ?v)"
      by (simp add: startConsuming_def Let_def)
    with assms(3,6) show False by simp
  qed
  show ?thesis
  proof (cases "snd ?c")
    case (Inl e)
    with assms(1,2) init valid have "err = e" by (simp add: startConsuming_def Let_def)
    with Inl have "err = channelNotReady \<or> check_out s q = Inl err"
      using safeChannelOperation_error [of "rabbit_of en" "QueueCheck q" "check_out s q" err]
      by (simp add: checkQueue_def)
    with assms(3,4) show ?thesis by (auto simp add: broker_answers_def)
  next
    case (Inr info)
    show ?thesis
    proof (cases "snd ?k")
      case (Inl e)
      with Inr assms(1,2) init valid have "err = e" by (simp add: startConsuming_def Let_def)
      with Inl have "err = channelNotReady \<or> consume_out s q = Inl err"
        using safeChannelOperation_error [of "fst ?c" "BasicConsume q" "consume_out s q" err]
        by (simp add: createConsumer_def)
      with assms(3,4) show ?thesis by (auto simp add: broker_answers_def)
    next
      case (Inr tag)
      with \<open>snd ?c = Inr info\<close> assms(1,2) init valid show ?thesis
        by (simp add: startConsuming_def Let_def)
    qed
  qed
qed

lemma startConsuming_not_found:
  assumes "snd (startConsuming s en q wh mi ma bh) = Inl err"
    and "map_of (activeConsumers en) q = None" and "is_not_found err"
  shows "broker_answers s q is_not_found"
  using assms(1,2) 
  by (rule startConsuming_error [where P = is_not_found])
     (simp_all add: assms(3) channelNotReady_found notInitializedError_found
        invalidConfigurationError_found)

lemma startConsuming_does_not_exist:
  assumes "snd (startConsuming s en q wh mi ma bh) = Inl err"
    and "map_of (activeConsumers en) q = None" and "says_does_not_exist err"
  shows "broker_answers s q says_does_not_exist"
  using assms(1,2)
  by (rule startConsuming_error [where P = says_does_not_exist])
     (simp_all add: assms(3) channelNotReady_exists notInitializedError_found
        invalidConfigurationError_found)


lemma restore_loop_toRemove_cause:
  assumes "x \<in> set (snd (snd (snd (snd (restore_loop s cfgs (en, a, b, c, tr))))))"
  shows "x \<in> set tr \<or>
         (map_of (activeConsumers en) x = None \<and> broker_answers s x is_not_found)"
  using assms
proof (induction cfgs arbitrary: en a b c tr)
  case Nil
  then show ?case by simp
next
  case (Cons entry rest)
  obtain queueName config where entry: "entry = (queueName, config)" by (cases entry)
  let ?st = "startConsuming s en queueName (pc_webhook config) (pc_minInterval config)
               (pc_maxInterval config) (pc_businessHours config)"
  show ?case
  proof (cases "map_of (activeConsumers en) queueName \<noteq> None")
    case True
    with Cons.prems entry
    have "x \<in> set (snd (snd (snd (snd (restore_loop s rest (en, a, b, c + 1, tr))))))"
      by simp
    then show ?thesis by (rule Cons.IH)
  next
    case False
    then have na: "map_of (activeConsumers en) queueName = None" by simp
    have grow: "map_of (activeConsumers (fst ?st)) x = None
                  \<Longrightarrow> map_of (activeConsumers en) x = None"
      using startConsuming_active_grows [of en x s queueName] by blast
    show ?thesis
    proof (cases "snd ?st")
      case (Inr started)
      with Cons.prems entry na
      have "x \<in> set (snd (snd (snd (snd (restore_loop s rest (fst ?st, a + 1, b, c, tr))))))"
        by (simp add: Let_def)
      from Cons.IH [OF this] grow show ?thesis by auto
    next
      case (Inl startError)
      show ?thesis
      proof (cases "is_not_found startError")
        case True
        with Cons.prems entry na Inl
        have "x \<in> set (snd (snd (snd (snd
                (restore_loop s rest (fst ?st, a, b + 1, c, tr @ [queueName]))))))"
          by (simp add: Let_def)
        from Cons.IH [OF this]
        have "x \<in> set (tr @ [queueName]) \<or>
              (map_of (activeConsumers (fst ?st)) x = None \<and> broker_answers s x is_not_found)" .
        moreover have "broker_answers s queueName is_not_found"
          using Inl na True by (rule startConsuming_not_found)
        ultimately show ?thesis using grow na by auto
      next
        case False
        with Cons.prems entry na Inl
        have "x \<in> set (snd (snd (snd (snd (restore_loop s rest (fst ?st, a, b + 1, c, tr))))))"
          by (simp add: Let_def)
        from Cons.IH [OF this] grow show ?thesis by auto
      qed
    qed
  qed
qed

lemma restorePersistedQueues_keeps_cause:
  assumes "persisted_has en q"
    and "\<not> (map_of (activeConsumers en) q = None \<and> broker_answers s q is_not_found)"
  shows "persisted_has (restorePersistedQueues s en) q"
proof -
  have "persisted_has
          (fold remove_persisted (snd (snd (snd (snd (restore_loop s cfgs (en, 0, 0, 0, []))))))
             (fst (restore_loop s cfgs (en, 0, 0, 0, [])))) q" for cfgs
  proof (rule fold_remove_persisted_keeps)
    show "persisted_has (fst (restore_loop s cfgs (en, 0, 0, 0, []))) q"
      using assms(1) by (rule restore_loop_keeps)
    show "q \<notin> set (snd (snd (snd (snd (restore_loop s cfgs (en, 0, 0, 0, []))))))"
      using restore_loop_toRemove_cause [of q s cfgs en 0 0 0 "[]"] assms(2) by auto
  qed
  then show ?thesis
    using assms(1)
    by (simp add: restorePersistedQueues_def Let_def split: option.splits sum.splits)
qed

lemma startConsuming_active_other:
  "x \<noteq> q \<Longrightarrow> map_of (activeConsumers (fst (startConsuming s en q wh mi ma bh))) x
     = map_of (activeConsumers en) x"
  by (simp add: startConsuming_def Let_def AList.update_conv' split: sum.splits)

lemma reestablish_failed_active [simp]:
  "activeConsumers (reestablish_failed q err en) = activeConsumers en"
  by (simp add: reestablish_failed_def)

lemma reestablish_failed_keeps:
  "persisted_has en p \<Longrightarrow> \<not> (p = q \<and> says_does_not_exist err)
     \<Longrightarrow> persisted_has (reestablish_failed q err en) p"
  by (auto simp add: reestablish_failed_def says_does_not_exist_def remove_persisted_other)

lemma reestablish_loop_keeps_cause:
  assumes "persisted_has en p"
    and "distinct (map fst consumers)"
    and "\<forall>x \<in> fst ` set consumers. map_of (activeConsumers en) x = None"
    and "\<not> broker_answers s p says_does_not_exist"
  shows "persisted_has (fst (reestablish_loop s consumers (en, a, b))) p"
  using assms
proof (induction consumers arbitrary: en a b)
  case Nil
  then show ?case by simp
next
  case (Cons entry rest)
  obtain queueName config where entry: "entry = (queueName, config)" by (cases entry)
  from Cons.prems(2) entry have dr: "distinct (map fst rest)"
    and nq: "queueName \<notin> fst ` set rest" by auto
  from Cons.prems(3) entry have na: "map_of (activeConsumers en) queueName = None"
    and nr: "\<forall>x \<in> fst ` set rest. map_of (activeConsumers en) x = None" by auto
  let ?c = "checkQueue (rabbit_of en) queueName (check_out s queueName)"
  let ?en1 = "set_rabbit (fst ?c) en"
  let ?st = "startConsuming s ?en1 queueName (cc_webhook config)
               (Some (cc_minInterval config)) (Some (cc_maxInterval config))
               (cc_businessHours config)"
  have p1: "persisted_has ?en1 p" using Cons.prems(1) by simp
  have p2: "persisted_has (fst ?st) p" using p1 by (rule startConsuming_keeps)
  have na1: "map_of (activeConsumers ?en1) queueName = None" using na by simp
  have nr1: "\<forall>x \<in> fst ` set rest. map_of (activeConsumers ?en1) x = None" using nr by simp
  have nr2: "\<forall>x \<in> fst ` set rest. map_of (activeConsumers (fst ?st)) x = None"
  proof
    fix x assume x: "x \<in> fst ` set rest"
    with nq have "x \<noteq> queueName" by auto
    moreover from nr1 x have "map_of (activeConsumers ?en1) x = None" by (rule bspec)
    ultimately show "map_of (activeConsumers (fst ?st)) x = None"
      by (simp add: startConsuming_active_other)
  qed
  show ?case
  proof (cases "snd ?c")
    case (Inl error)
    have "\<not> (p = queueName \<and> says_does_not_exist error)"
    proof
      assume h: "p = queueName \<and> says_does_not_exist error"
      from Inl have "error = channelNotReady \<or> check_out s queueName = Inl error"
        using safeChannelOperation_error [of "rabbit_of en" "QueueCheck queueName"
            "check_out s queueName" error]
        by (simp add: checkQueue_def)
      with h channelNotReady_exists have "check_out s p = Inl error" by auto
      with h Cons.prems(4) show False by (simp add: broker_answers_def)
    qed
    with p1 have "persisted_has (reestablish_failed queueName error ?en1) p"
      by (rule reestablish_failed_keeps)
    moreover have "\<forall>x \<in> fst ` set rest.
        map_of (activeConsumers (reestablish_failed queueName error ?en1)) x = None"
      using nr1 by simp
    ultimately have "persisted_has (fst (reestablish_loop s rest
        (reestablish_failed queueName error ?en1, a, b + 1))) p"
      using dr Cons.prems(4) by (intro Cons.IH)
    with Inl entry show ?thesis by (simp add: Let_def)
  next
    case (Inr info)
    show ?thesis
    proof (cases "snd ?st")
      case (Inl error)
      have "\<not> (p = queueName \<and> says_does_not_exist error)"
      proof
        assume h: "p = queueName \<and> says_does_not_exist error"
        with Inl na1 have "broker_answers s queueName says_does_not_exist"
          using startConsuming_does_not_exist by blast
        with h Cons.prems(4) show False by simp
      qed
      with p2 have "persisted_has (reestablish_failed queueName error (fst ?st)) p"
        by (rule reestablish_failed_keeps)
      moreover have "\<forall>x \<in> fst ` set rest.
          map_of (activeConsumers (reestablish_failed queueName error (fst ?st))) x = None"
        using nr2 by simp
      ultimately have "persisted_has (fst (reestablish_loop s rest
          (reestablish_failed queueName error (fst ?st), a, b + 1))) p"
        using dr Cons.prems(4) by (intro Cons.IH)
      with Inl Inr entry show ?thesis by (simp add: Let_def)
    next
      case (Inr started)
      show ?thesis
      proof (cases "map_of (activeConsumers (fst ?st)) queueName")
        case None
        from Cons.IH [OF p2 dr nr2 Cons.prems(4)] None Inr \<open>snd ?c = Inr info\<close> entry
        show ?thesis by (simp add: Let_def)
      next
        case (Some newConfig)
        let ?en3 = "(fst ?st)\<lparr>activeConsumers :=
                       AList.update queueName
                         (newConfig\<lparr>cc_paused := cc_paused config,
                            lastMessage := lastMessage config,
                            cc_messageCount := cc_messageCount config\<rparr>)
                         (activeConsumers (fst ?st))\<rparr>"
        have p3: "persisted_has ?en3 p" using p2 by simp
        have nr3: "\<forall>x \<in> fst ` set rest. map_of (activeConsumers ?en3) x = None"
        proof
          fix x assume x: "x \<in> fst ` set rest"
          with nq have "x \<noteq> queueName" by auto
          moreover from nr2 x have "map_of (activeConsumers (fst ?st)) x = None" by (rule bspec)
          ultimately show "map_of (activeConsumers ?en3) x = None"
            by (simp add: AList.update_conv')
        qed
        from Cons.IH [OF p3 dr nr3 Cons.prems(4)] Some Inr \<open>snd ?c = Inr info\<close> entry
        show ?thesis by (simp add: Let_def)
      qed
    qed
  qed
qed

lemma handleReconnectionSuccess_keeps_cause:
  assumes "persisted_has en q"
    and "\<not> (map_of (activeConsumers en) q \<noteq> None \<and>
            (broker_answers s q says_does_not_exist \<or> \<not> distinct (map fst (activeConsumers en))))"
  shows "persisted_has (handleReconnectionSuccess s en) q"
proof (cases "map_of (activeConsumers en) q = None")
  case True
  with assms(1) show ?thesis by (rule handleReconnectionSuccess_keeps)
next
  case False
  with assms(2) have d: "distinct (map fst (activeConsumers en))"
    and nb: "\<not> broker_answers s q says_does_not_exist" by auto
  have "persisted_has (fst (reestablish_loop s (activeConsumers en)
          (en\<lparr>activeConsumers := [], queueIntervals := []\<rparr>, 0, 0))) q"
    using assms(1) d nb by (intro reestablish_loop_keeps_cause) simp_all
  then show ?thesis by (simp add: handleReconnectionSuccess_def Let_def)
qed






lemma js_le_total: "a \<noteq> NaN \<Longrightarrow> b \<noteq> NaN \<Longrightarrow> \<not> js_le a b \<Longrightarrow> js_le b a"
  by (cases a; cases b) simp_all










lemma sanitizeIntervals_defaults:
  "sanitizeIntervals (Some (Num 30000)) (Some (Num 110000)) = (Num 30000, Num 110000)"
  by code_simp

lemma initialize_keeps:
  assumes "persisted_has en q"
    and "\<not> (\<not> isInitialized en \<and> map_of (activeConsumers en) q = None \<and>
            broker_answers s q is_not_found)"
  shows "persisted_has (fst (initialize s en)) q"
proof (cases "isInitialized en")
  case True
  with assms(1) show ?thesis by (simp add: initialize_def)
next
  case False
  let ?c = "connect (rabbit_of en) (connect_out s)"
  let ?en1 = "(set_rabbit (fst ?c) en)\<lparr>isInitialized := True\<rparr>"
  have "persisted_has ?en1 q" using assms(1) by (simp add: persisted_has_def set_rabbit_def)
  moreover have "\<not> (map_of (activeConsumers ?en1) q = None \<and> broker_answers s q is_not_found)"
    using assms(2) False by simp
  ultimately have "persisted_has (restorePersistedQueues s ?en1) q"
    by (rule restorePersistedQueues_keeps_cause)
  with assms(1) False show ?thesis
    by (simp add: initialize_def Let_def split: sum.splits)
qed

lemma checkQueueEmpty_keeps:
  "persisted_has (checkQueueEmpty s en q') q = persisted_has en q"
proof -
  have "persisted_has (fst (stopConsuming s en' q' ''queue_empty'')) q = persisted_has en' q"
    for en'
    by (rule stopConsuming_keeps) simp
  then show ?thesis
    by (simp add: checkQueueEmpty_def Let_def split: sum.splits option.splits)
qed

section \<open>Results\<close>




text \<open>
  A fraction can lose the last bit as well: \<open>1500 + 2^-42\<close> is a double, and adding
  1000 gives a tie that rounds down to 2500.
\<close>

lemma sanitizeIntervals_fraction_rounds_down:
  "round_double (1500 + 1 / 2 ^ 42) = Num (1500 + 1 / 2 ^ 42) \<and>
   sanitizeIntervals (Some (Num (1500 + 1 / 2 ^ 42))) (Some (Num 2000))
     = (Num (1500 + 1 / 2 ^ 42), Num 2500) \<and>
   \<not> exact_gap (sanitizeIntervals (Some (Num (1500 + 1 / 2 ^ 42))) (Some (Num 2000)))"
  by code_simp

text \<open>
  C3. The documented configuration \<open>businessHours = {start: 8, end: 24}\<close> is within
  \<open>0 \<le> start < end \<le> 24\<close>, and \<open>validateQueueConfig\<close> reports it as invalid.
\<close>

theorem validateQueueConfig_rejects_end_24:
  "errors (validateQueueConfig (\<lambda>s. True)
      \<lparr>qc_queue = ''orders'', qc_webhook = ''https://api.example.com/orders'',
       qc_minInterval = Some (Num 30000), qc_maxInterval = Some (Num 110000),
       qc_businessHours = Some \<lparr>bh_start = 8, bh_end = 24\<rparr>\<rparr>)
     = [''Invalid business hours configuration'']"
  using sanitizeIntervals_defaults
  by (simp add: validateQueueConfig_def isValidQueueName_def trim_def is_space_def
      isValidUrl_def js_ge_def Let_def)

lemma validateQueueConfig_business_hours_iff:
  "''Invalid business hours configuration''
      \<in> set (errors (validateQueueConfig up config))
   \<longleftrightarrow> (\<exists>bh. qc_businessHours config = Some bh \<and>
          \<not> (0 \<le> bh_start bh \<and> bh_start bh < bh_end bh \<and> bh_end bh \<le> 23))"
  by (cases "qc_businessHours config")
    (auto simp add: validateQueueConfig_def Let_def split: prod.splits)

text \<open>
  C7. \<open>ackMessage\<close> and \<open>nackMessage\<close> do nothing when the channel is not ready (no
  channel call, no event, normal return), and when the channel throws an error with
  code 406 and a delivery-tag message they return normally and emit nothing.
\<close>

theorem ack_nack_not_ready_or_406:
  "(\<not> isChannelReady r \<longrightarrow>
      ackMessage r out msg = (r, Inr ()) \<and>
      nackMessage r out msg allUpTo requeue = (r, Inr ())) \<and>
   (err_code e = Some 406 \<and> str_includes (err_message e) ''delivery tag'' \<longrightarrow>
      snd (ackMessage r (Some e) msg) = Inr () \<and>
      emitted (fst (ackMessage r (Some e) msg)) = emitted r \<and>
      snd (nackMessage r (Some e) msg allUpTo requeue) = Inr () \<and>
      emitted (fst (nackMessage r (Some e) msg allUpTo requeue)) = emitted r)"
  by (simp add: ackMessage_def nackMessage_def Let_def split: option.splits)

theorem ack_nack_not_ready_or_406_witness:
  "\<not> isChannelReady closed_rabbit \<and>
   ackMessage closed_rabbit None (Some delivery7) = (closed_rabbit, Inr ()) \<and>
   nackMessage closed_rabbit None (Some delivery7) False True = (closed_rabbit, Inr ()) \<and>
   err_code unknown_delivery_tag = Some 406 \<and>
   str_includes (err_message unknown_delivery_tag) ''delivery tag'' \<and>
   isChannelReady ready_rabbit \<and>
   snd (ackMessage ready_rabbit (Some unknown_delivery_tag) (Some delivery7)) = Inr () \<and>
   emitted (fst (ackMessage ready_rabbit (Some unknown_delivery_tag) (Some delivery7))) = [] \<and>
   channel_calls (fst (ackMessage ready_rabbit (Some unknown_delivery_tag) (Some delivery7)))
     = [BasicAck 7] \<and>
   snd (nackMessage ready_rabbit (Some unknown_delivery_tag) (Some delivery7) False True) = Inr () \<and>
   emitted (fst (nackMessage ready_rabbit (Some unknown_delivery_tag) (Some delivery7) False True))
     = []"
proof -
  have nr: "\<not> isChannelReady closed_rabbit"
    by (simp add: isChannelReady_def closed_rabbit_def)
  have rd: "isChannelReady ready_rabbit"
    by (simp add: isChannelReady_def ready_rabbit_def)
  have e: "err_code unknown_delivery_tag = Some 406 \<and>
           str_includes (err_message unknown_delivery_tag) ''delivery tag''"
    by (simp add: unknown_delivery_tag_def)
  have calls: "channel_calls
      (fst (ackMessage ready_rabbit (Some unknown_delivery_tag) (Some delivery7))) = [BasicAck 7]"
    using rd by (simp add: ackMessage_def Let_def ready_rabbit_def delivery7_def)
  have em: "emitted ready_rabbit = []"
    by (simp add: ready_rabbit_def)
  from ack_nack_not_ready_or_406 [of closed_rabbit None "Some delivery7" False True
        unknown_delivery_tag]
    ack_nack_not_ready_or_406 [of ready_rabbit None "Some delivery7" False True
        unknown_delivery_tag]
    nr rd e calls em
  show ?thesis by simp
qed

text \<open>
  C10. Whatever the channel throws, \<open>ackMessage\<close> and \<open>nackMessage\<close> return normally
  and emit no event; an error thrown inside \<open>safeChannelOperation\<close> (the route of
  \<open>checkQueue\<close>, \<open>createConsumer\<close> and \<open>cancelConsumer\<close>) is rethrown, and
  \<open>needsReconnection\<close> is emitted for it exactly when the classifier says so.
\<close>

theorem ack_nack_swallow_every_error:
  "snd (ackMessage r out msg) = Inr () \<and>
   emitted (fst (ackMessage r out msg)) = emitted r \<and>
   snd (nackMessage r out msg allUpTo requeue) = Inr () \<and>
   emitted (fst (nackMessage r out msg allUpTo requeue)) = emitted r \<and>
   (isChannelReady r \<longrightarrow>
      snd (checkQueue r q (Inl e)) = Inl e \<and>
      snd (createConsumer r q (Inl e)) = Inl e \<and>
      snd (cancelConsumer r tag (Inl e)) = Inl e \<and>
      emitted (fst (checkQueue r q (Inl e)))
        = emitted r @ (if shouldTriggerReconnection e then [NeedsReconnection e] else []) \<and>
      emitted (fst (createConsumer r q (Inl e)))
        = emitted r @ (if shouldTriggerReconnection e then [NeedsReconnection e] else []) \<and>
      emitted (fst (cancelConsumer r tag (Inl e)))
        = emitted r @ (if shouldTriggerReconnection e then [NeedsReconnection e] else []))"
  by (simp add: ackMessage_def nackMessage_def checkQueue_def createConsumer_def
      cancelConsumer_def safeChannelOperation_def emit_def Let_def split: option.splits)

theorem ack_nack_swallow_every_error_witness:
  "isChannelReady ready_rabbit \<and>
   shouldTriggerReconnection channel_closed_error \<and>
   snd (ackMessage ready_rabbit (Some channel_closed_error) (Some delivery7)) = Inr () \<and>
   emitted (fst (ackMessage ready_rabbit (Some channel_closed_error) (Some delivery7))) = [] \<and>
   snd (nackMessage ready_rabbit (Some channel_closed_error) (Some delivery7) False True)
     = Inr () \<and>
   emitted (fst (nackMessage ready_rabbit (Some channel_closed_error) (Some delivery7) False True))
     = [] \<and>
   snd (checkQueue ready_rabbit ''orders'' (Inl channel_closed_error))
     = Inl channel_closed_error \<and>
   emitted (fst (checkQueue ready_rabbit ''orders'' (Inl channel_closed_error)))
     = [NeedsReconnection channel_closed_error]"
proof -
  have rd: "isChannelReady ready_rabbit"
    by (simp add: isChannelReady_def ready_rabbit_def)
  have tr: "shouldTriggerReconnection channel_closed_error"
    by (simp add: shouldTriggerReconnection_def channel_closed_error_def connectionErrors_def)
  have em: "emitted ready_rabbit = []"
    by (simp add: ready_rabbit_def)
  from ack_nack_swallow_every_error [of ready_rabbit "Some channel_closed_error"
        "Some delivery7" False True "''orders''" channel_closed_error "''tag''"]
    rd tr em
  show ?thesis by simp
qed

text \<open>
  C1. A webhook that answers 404: \<open>processMessage\<close> returns \<open>{ack, success}\<close> and
  counts the message as processed, not as failed (the contrary of the claimed
  \<open>{ack, webhook_permanent_error}\<close>).
\<close>

theorem processMessage_404_is_success:
  "snd (processMessage (env_status 404) processor0 (Some delivery7) orders_cfg)
     = Inr \<lparr>action = Ack, reason = Success, messageContent = Some ''[1,2,3]''\<rparr> \<and>
   n_processed (stats (fst (processMessage (env_status 404) processor0 (Some delivery7)
     orders_cfg))) = 1 \<and>
   n_failed (stats (fst (processMessage (env_status 404) processor0 (Some delivery7)
     orders_cfg))) = 0"
proof -
  have pr: "processable (env_status 404) processor0 delivery7 orders_cfg"
    by (simp add: processable_def processor0_def new_dedup_def isMessageProcessed_def
        orders_cfg_def env_status_def isWithinBusinessHours_def isValidUrl_def)
  have ra: "1 \<le> retryAttempts (webhookService processor0)"
    by (simp add: processor0_def new_webhook_service_def webhook_retryAttempts_def)
  have h: "http (env_status 404) 1 = Response 404"
    by (simp add: env_status_def)
  have z: "n_processed (stats processor0) = 0" "n_failed (stats processor0) = 0"
    "content delivery7 = ''[1,2,3]''"
    by (simp_all add: processor0_def new_stats_def delivery7_def)
  from processMessage_below_500 [OF pr ra h] z show ?thesis by simp
qed

text \<open>
  C4. A webhook that answers 500 on each of the three configured attempts: three POSTs are
  made, the disposition is \<open>{nack, webhook_retry}\<close>, \<open>failed\<close> is 1, and the
  \<open>retries\<close> counter is 3 (the number of attempts, not attempts minus one).
\<close>

theorem processMessage_500_retries_counter:
  "snd (processMessage (env_status 500) processor0 (Some delivery7) orders_cfg)
     = Inr \<lparr>action = Nack, reason = Webhook_retry, messageContent = None\<rparr> \<and>
   n_failed (stats (fst (processMessage (env_status 500) processor0 (Some delivery7)
     orders_cfg))) = 1 \<and>
   length (posts (webhookService (fst (processMessage (env_status 500) processor0
     (Some delivery7) orders_cfg)))) = 3 \<and>
   ws_retries (webhookService (fst (processMessage (env_status 500) processor0
     (Some delivery7) orders_cfg))) = 3"
proof -
  have pr: "processable (env_status 500) processor0 delivery7 orders_cfg"
    by (simp add: processable_def processor0_def new_dedup_def isMessageProcessed_def
        orders_cfg_def env_status_def isWithinBusinessHours_def isValidUrl_def)
  have ra: "retryAttempts (webhookService processor0) = 3"
    by (simp add: processor0_def new_webhook_service_def webhook_retryAttempts_def)
  have h: "\<forall>k. 1 \<le> k \<and> k \<le> retryAttempts (webhookService processor0)
             \<longrightarrow> retryable (http (env_status 500) k)"
    by (simp add: env_status_def retryable_def)
  have z: "n_failed (stats processor0) = 0" "ws_retries (webhookService processor0) = 0"
    "posts (webhookService processor0) = []"
    by (simp_all add: processor0_def new_stats_def new_webhook_service_def)
  from processMessage_all_fail [OF pr _ h] ra z show ?thesis by simp
qed

text \<open>
  C8. Every call of \<open>processMessage\<close> returns one disposition, with action ack, nack or
  skip; for a delivery, the fingerprint is not in the in-flight map afterwards, on every
  path, and the one channel call made (when the channel is ready) is the one that
  belongs to the action. For the \<open>null\<close> message nothing changes.
\<close>

theorem processMessage_one_disposition:
  "(\<exists>d. snd (processMessage e p msg cfg) = Inr d \<and> action d \<in> {Ack, Nack, Skip} \<and>
        (case msg of
           None \<Rightarrow> fst (processMessage e p msg cfg) = p
         | Some m \<Rightarrow>
             processingMessages (deduplicationService (fst (processMessage e p msg cfg)))
               (generateMessageId m) = None \<and>
             channel_calls (rabbitMQService (fst (processMessage e p msg cfg)))
               = channel_calls (rabbitMQService p)
                 @ (if isChannelReady (rabbitMQService p)
                    then broker_op_of (action d) (deliveryTag m) else [])))"
proof (cases msg)
  case None
  then show ?thesis by (simp add: processMessage_def)
next
  case (Some m)
  let ?mid = "generateMessageId m"
  let ?t = "try_block e p m ?mid cfg"
  have act: "\<And>d. action d \<in> {Ack, Nack, Skip}"
    by (metis action.exhaust insertCI)
  from try_block_result [of e p m ?mid cfg] show ?thesis
  proof
    assume "\<exists>d. snd ?t = Inr d \<and>
        channel_calls (rabbitMQService (fst ?t))
          = channel_calls (rabbitMQService p)
            @ (if isChannelReady (rabbitMQService p) then broker_op_of (action d) (deliveryTag m)
               else [])"
    then obtain d where d: "snd ?t = Inr d"
      and c: "channel_calls (rabbitMQService (fst ?t))
          = channel_calls (rabbitMQService p)
            @ (if isChannelReady (rabbitMQService p) then broker_op_of (action d) (deliveryTag m)
               else [])"
      by blast
    show ?thesis
      using Some d c act [of d]
      by (simp add: processMessage_def Let_def finally_block_removes)
  next
    assume a: "snd ?t = Inl TypeError \<and> rabbitMQService (fst ?t) = rabbitMQService p"
    show ?thesis
      using Some a catch_block_result [of e "fst ?t" m]
      by (simp add: processMessage_def Let_def finally_block_removes)
  qed
qed

theorem processMessage_one_disposition_witness:
  "snd (processMessage (env_status 200) processor0 (Some delivery7) orders_cfg)
     = Inr \<lparr>action = Ack, reason = Success, messageContent = Some ''[1,2,3]''\<rparr> \<and>
   processingMessages (deduplicationService (fst (processMessage (env_status 200) processor0
     (Some delivery7) orders_cfg))) (generateMessageId delivery7) = None \<and>
   channel_calls (rabbitMQService (fst (processMessage (env_status 200) processor0
     (Some delivery7) orders_cfg))) = [BasicAck 7]"
proof -
  have pr: "processable (env_status 200) processor0 delivery7 orders_cfg"
    by (simp add: processable_def processor0_def new_dedup_def isMessageProcessed_def
        orders_cfg_def env_status_def isWithinBusinessHours_def isValidUrl_def)
  have ra: "1 \<le> retryAttempts (webhookService processor0)"
    by (simp add: processor0_def new_webhook_service_def webhook_retryAttempts_def)
  have h: "http (env_status 200) 1 = Response 200"
    by (simp add: env_status_def)
  have d: "snd (processMessage (env_status 200) processor0 (Some delivery7) orders_cfg)
     = Inr \<lparr>action = Ack, reason = Success, messageContent = Some ''[1,2,3]''\<rparr>"
    using processMessage_below_500(1) [OF pr ra h] by (simp add: delivery7_def)
  have rd: "isChannelReady (rabbitMQService processor0)"
    "channel_calls (rabbitMQService processor0) = []" "deliveryTag delivery7 = 7"
    by (simp_all add: processor0_def isChannelReady_def ready_rabbit_def delivery7_def)
  from processMessage_one_disposition [of "env_status 200" processor0 "Some delivery7"
      orders_cfg] d rd
  show ?thesis by auto
qed

text \<open>
  C6. While the channel is ready, \<open>shouldAttemptReconnection\<close> answers no and changes
  nothing, so that \<open>scheduleReconnection\<close> and the handlers of the broker client's events
  arm no timer, and \<open>attemptReconnection\<close> and \<open>forceReconnection\<close> start no attempt: no
  counter moves, no event is emitted, and the broker client is left as it is.
\<close>

theorem no_reconnection_while_channel_ready:
  assumes "isChannelReady r"
  shows "shouldAttemptReconnection rc r t = (rc, False) \<and>
         scheduleReconnection rc r t = rc \<and>
         handleNeedsReconnection rc r t = rc \<and>
         attemptReconnection rc r t out = (rc, r) \<and>
         forceReconnection rc r t out = (rc\<lparr>reconnectTimeout := None\<rparr>, r)"
  using assms shouldAttemptReconnection_ready [of r]
  by (simp add: handleNeedsReconnection_def forceReconnection_def)

theorem no_reconnection_while_channel_ready_witness:
  "isChannelReady ready_rabbit \<and>
   shouldAttemptReconnection new_reconnection ready_rabbit 1700000000000
     = (new_reconnection, False) \<and>
   scheduleReconnection new_reconnection ready_rabbit 1700000000000 = new_reconnection \<and>
   attemptReconnection new_reconnection ready_rabbit 1700000000000 None
     = (new_reconnection, ready_rabbit) \<and>
   \<not> isChannelReady closed_rabbit \<and>
   snd (shouldAttemptReconnection new_reconnection closed_rabbit 1700000000000) = True"
proof -
  have rd: "isChannelReady ready_rabbit"
    by (simp add: isChannelReady_def ready_rabbit_def)
  have nr: "\<not> isChannelReady closed_rabbit"
    by (simp add: isChannelReady_def closed_rabbit_def)
  have att: "snd (shouldAttemptReconnection new_reconnection closed_rabbit 1700000000000) = True"
    using nr
    by (simp add: shouldAttemptReconnection_def new_reconnection_def
        reconnection_maxAttempts_def reconnection_debounceMs_def)
  from no_reconnection_while_channel_ready
         [of ready_rabbit new_reconnection 1700000000000 None] rd nr att
  show ?thesis by simp
qed

text \<open>
  The second text of the class in \<open>ReconnectionService.js\<close> (from line 382 on), which
  follows the exported one, has no channel check: asked while the channel is ready it
  answers yes, schedules, and attempts.
\<close>

lemma shouldAttemptReconnection_v2_ready_channel:
  "isChannelReady ready_rabbit \<and>
   snd (shouldAttemptReconnection_v2 new_reconnection ready_rabbit 1700000000000) = True \<and>
   reconnectTimeout (scheduleReconnection_v2 new_reconnection ready_rabbit 1700000000000)
     = Some 1 \<and>
   rc_events (fst (attemptReconnection_v2 new_reconnection ready_rabbit 1700000000000 None))
     = [ReconnectionStarted 1, ReconnectionSuccessful]"
  by (simp add: isChannelReady_def ready_rabbit_def shouldAttemptReconnection_v2_def
      new_reconnection_def reconnection_maxAttempts_def reconnection_debounceMs_def
      scheduleReconnection_v2_def scheduleReconnection_with_def attemptReconnection_v2_def
      attemptReconnection_with_def Let_def connect_def cleanup_def resetReconnectionState_def
      emit_def)

text \<open>
  C2 (amended). \<open>markMessageProcessed\<close> puts a fingerprint into the processed set and
  no call of \<open>processMessage\<close> takes it out. For a delivery whose fingerprint is in the
  processed set, \<open>processMessage\<close> returns \<open>{skip, duplicate}\<close>, increments \<open>duplicates\<close> and
  \<open>skipped\<close>, leaves the broker client untouched (no call on the channel, no event)
  and keeps the fingerprint in the set; the engine's message handler of an active queue
  returns normally and leaves the broker client untouched as well, whether or not a
  listener throws after the processor has returned.
\<close>

theorem duplicate_skipped_without_broker_call:
  "isMessageProcessed (markMessageProcessed d (generateMessageId m)) (generateMessageId m) \<and>
   (isMessageProcessed (deduplicationService (messageProcessor en)) (generateMessageId m) \<longrightarrow>
     isMessageProcessed
       (deduplicationService (fst (processMessage e' (messageProcessor en) msg' cfg')))
       (generateMessageId m) \<and>
     snd (processMessage e (messageProcessor en) (Some m) cfg)
       = Inr \<lparr>action = Skip, reason = Duplicate, messageContent = None\<rparr> \<and>
     n_duplicates (stats (fst (processMessage e (messageProcessor en) (Some m) cfg)))
       = n_duplicates (stats (messageProcessor en)) + 1 \<and>
     n_skipped (stats (fst (processMessage e (messageProcessor en) (Some m) cfg)))
       = n_skipped (stats (messageProcessor en)) + 1 \<and>
     rabbitMQService (fst (processMessage e (messageProcessor en) (Some m) cfg))
       = rabbitMQService (messageProcessor en) \<and>
     (map_of (activeConsumers en) (h_queueName h) \<noteq> None \<longrightarrow>
        snd (messageHandler s h en (Some m)) = Inr () \<and>
        rabbit_of (fst (messageHandler s h en (Some m))) = rabbit_of en))"
proof (intro impI conjI)
  show "isMessageProcessed (markMessageProcessed d (generateMessageId m)) (generateMessageId m)"
    by (simp add: markMessageProcessed_isProcessed)
next
  assume a: "isMessageProcessed (deduplicationService (messageProcessor en)) (generateMessageId m)"
  note d = processMessage_duplicate [OF a]
  show "isMessageProcessed
       (deduplicationService (fst (processMessage e' (messageProcessor en) msg' cfg')))
       (generateMessageId m)"
    using a by (rule processMessage_keeps)
  show "snd (processMessage e (messageProcessor en) (Some m) cfg)
       = Inr \<lparr>action = Skip, reason = Duplicate, messageContent = None\<rparr>"
    by (simp add: d)
  show "n_duplicates (stats (fst (processMessage e (messageProcessor en) (Some m) cfg)))
       = n_duplicates (stats (messageProcessor en)) + 1"
    by (simp add: d finally_block_def)
  show "n_skipped (stats (fst (processMessage e (messageProcessor en) (Some m) cfg)))
       = n_skipped (stats (messageProcessor en)) + 1"
    by (simp add: d finally_block_def)
  show "rabbitMQService (fst (processMessage e (messageProcessor en) (Some m) cfg))
       = rabbitMQService (messageProcessor en)"
    by (simp add: d finally_block_def)
  assume b: "map_of (activeConsumers en) (h_queueName h) \<noteq> None"
  then obtain cc where cc: "map_of (activeConsumers en) (h_queueName h) = Some cc" by blast
  show "snd (messageHandler s h en (Some m)) = Inr ()"
    using cc by (simp add: messageHandler_def d Let_def emitE_def split: option.splits)
  show "rabbit_of (fst (messageHandler s h en (Some m))) = rabbit_of en"
    using cc
    by (simp add: messageHandler_def d Let_def emitE_def rabbit_of_def finally_block_def
        split: option.splits)
qed

theorem duplicate_skipped_without_broker_call_witness:
  "isMessageProcessed (deduplicationService (messageProcessor dup_engine))
     (generateMessageId delivery7) \<and>
   snd (processMessage (env_status 200) (messageProcessor dup_engine) (Some delivery7) orders_cfg)
     = Inr \<lparr>action = Skip, reason = Duplicate, messageContent = None\<rparr> \<and>
   channel_calls (rabbitMQService (fst (processMessage (env_status 200)
     (messageProcessor dup_engine) (Some delivery7) orders_cfg))) = [] \<and>
   map_of (activeConsumers dup_engine) (h_queueName orders_handler) \<noteq> None \<and>
   snd (messageHandler throwing_surroundings orders_handler dup_engine (Some delivery7))
     = Inr () \<and>
   channel_calls (rabbit_of (fst (messageHandler throwing_surroundings orders_handler dup_engine
     (Some delivery7)))) = []"
proof -
  have a: "isMessageProcessed (deduplicationService (messageProcessor dup_engine))
     (generateMessageId delivery7)"
    by (simp add: dup_engine_def markMessageProcessed_isProcessed)
  have b: "map_of (activeConsumers dup_engine) (h_queueName orders_handler) \<noteq> None"
    by (simp add: dup_engine_def engine0_def orders_handler_def)
  have c: "channel_calls (rabbitMQService (messageProcessor dup_engine)) = []"
    "channel_calls (rabbit_of dup_engine) = []"
    by (simp_all add: dup_engine_def rabbit_of_def processor0_def ready_rabbit_def)
  from duplicate_skipped_without_broker_call [of new_dedup delivery7 dup_engine
      "env_status 200" None orders_cfg "env_status 200" orders_cfg orders_handler
      throwing_surroundings] a b c
  show ?thesis by simp
qed

text \<open>
  C2 (as stated) fails: the fingerprint of the delivery with tag 1 was marked processed;
  after 10000 further fingerprints and one cleanup sweep it is no longer in the set, and
  a delivery with that fingerprint is sent to the webhook and acked.
\<close>

theorem evicted_fingerprint_processed_again:
  "isMessageProcessed full_dedup (generateMessageId (tagged 1)) \<and>
   \<not> isMessageProcessed (deduplicationService swept_processor) (generateMessageId (tagged 1)) \<and>
   snd (processMessage (env_status 200) swept_processor (Some (tagged 1)) orders_cfg)
     = Inr \<lparr>action = Ack, reason = Success, messageContent = Some ''[1,2,3]''\<rparr>"
proof -
  have n: "\<not> isMessageProcessed (deduplicationService swept_processor)
              (generateMessageId (tagged 1))"
    using swept_forgot_first by (simp add: swept_processor_def)
  have pr: "processable (env_status 200) swept_processor (tagged 1) orders_cfg"
    using n
    by (simp add: processable_def orders_cfg_def env_status_def isWithinBusinessHours_def
        isValidUrl_def)
  have ra: "1 \<le> retryAttempts (webhookService swept_processor)"
    by (simp add: swept_processor_def processor0_def new_webhook_service_def
        webhook_retryAttempts_def)
  have h: "http (env_status 200) 1 = Response 200"
    by (simp add: env_status_def)
  from processMessage_below_500(1) [OF pr ra h] full_remembers_first n
  show ?thesis by (simp add: tagged_def)
qed

text \<open>
  C5 (amended). A configuration leaves the persistence store only through one of the
  transitions of \<open>may_remove\<close>; every other transition (a delivery, a stop with another
  reason, also the one of the queue-empty check, pause, resume, start, shutdown, the stop
  request of the control API) keeps it.
\<close>

theorem persisted_config_removed_only_by:
  assumes "persisted_has en q" "\<not> persisted_has (step s en t) q"
  shows "may_remove s en t q"
proof (rule ccontr)
  assume n: "\<not> may_remove s en t q"
  have "persisted_has (step s en t) q"
  proof (cases t)
    case Initialize
    with n assms(1) show ?thesis by (simp add: initialize_keeps)
  next
    case (CheckQueueEmpty q')
    with assms(1) show ?thesis by (simp add: checkQueueEmpty_keeps)
  next
    case (Deliver h msg)
    with n assms(1) show ?thesis
      by (cases msg) (simp_all add: messageHandler_delivery_keeps messageHandler_null_other)
  next
    case (ConsumerCancelledEv tag)
    with n assms(1) show ?thesis by (simp add: handleConsumerCancelled_other)
  next
    case HealthCheck
    with n assms(1) show ?thesis by (simp add: healthCheckTick_keeps)
  next
    case ReconnectionSuccess
    with n assms(1) show ?thesis by (simp add: handleReconnectionSuccess_keeps_cause)
  next
    case RestorePersisted
    with n assms(1) show ?thesis by (simp add: restorePersistedQueues_keeps_cause)
  next
    case (StartConsuming q' wh mi ma bh)
    with assms(1) show ?thesis by (simp add: startConsuming_keeps)
  next
    case (StopConsuming q' rsn)
    with n assms(1) show ?thesis by (simp add: stopConsuming_keeps)
  next
    case (PauseConsuming q')
    with assms(1) show ?thesis by (simp add: pause_resume_keeps)
  next
    case (ResumeConsuming q')
    with assms(1) show ?thesis by (simp add: pause_resume_keeps)
  next
    case Shutdown
    with assms(1) show ?thesis by (simp add: shutdown_keeps)
  next
    case (ApiStop q')
    with assms(1) show ?thesis by (simp add: api_stopConsuming_keeps)
  next
    case ApiClearConfigs
    with n show ?thesis by simp
  next
    case ApiCleanupOrphans
    with n assms(1) show ?thesis by (simp add: api_cleanupOrphanedConfigs_keeps)
  next
    case (ApiRemovePersisted q')
    with n assms(1) show ?thesis by (simp add: api_removePersistedQueue_other)
  next
    case (ApiRestoreBackup backup)
    with n assms(1) show ?thesis by (simp add: api_restoreFromBackup_keeps)
  qed
  with assms(2) show False by simp
qed

theorem persisted_config_removed_only_by_witness:
  "persisted_has engine0 ''orders'' \<and>
   \<not> persisted_has (step surroundings0 engine0 (StopConsuming ''orders'' ''manual'')) ''orders'' \<and>
   may_remove surroundings0 engine0 (StopConsuming ''orders'' ''manual'') ''orders'' \<and>
   persisted_has (step surroundings0 engine0 (StopConsuming ''orders'' ''queue_empty'')) ''orders'' \<and>
   persisted_has (step surroundings0 engine0 Shutdown) ''orders''"
proof -
  have a: "persisted_has engine0 ''orders''"
    by (simp add: persisted_has_def engine0_def)
  have b: "\<not> persisted_has (step surroundings0 engine0 (StopConsuming ''orders'' ''manual''))
             ''orders''"
    by (simp add: persisted_has_def engine0_def stopConsuming_def Let_def
        remove_persisted_def removeQueueConfig_def emitE_def set_rabbit_def
        cancelConsumer_def safeChannelOperation_def surroundings0_def rabbit_of_def
        processor0_def ready_rabbit_def isChannelReady_def orders_consumer_def)
  have c: "persisted_has (step surroundings0 engine0 (StopConsuming ''orders'' ''queue_empty''))
             ''orders''"
    using a by (simp add: stopConsuming_keeps)
  have d: "persisted_has (step surroundings0 engine0 Shutdown) ''orders''"
    using a by (simp add: shutdown_keeps)
  from persisted_config_removed_only_by [OF a b] a b c d show ?thesis by simp
qed

text \<open>
  C5 (as stated) fails: the \<open>null\<close> delivery that reports a cancelled consumer removes
  the queue's configuration from the store.
\<close>

theorem null_delivery_removes_persisted_config:
  "persisted_has engine0 ''orders'' \<and>
   \<not> persisted_has (step surroundings0 engine0 (Deliver orders_handler None)) ''orders''"
  by (simp add: persisted_has_def engine0_def orders_handler_def messageHandler_def Let_def
      remove_persisted_def removeQueueConfig_def emitE_def)

end
